theory Spec2Isabelle
  imports Main "HOL-Library.Word"
begin

unbundle bit_operations_syntax

section \<open>The LG SW49410 rev1 MIPI-DSI panel driver\<close>

text \<open>
  A shallow embedding of \<^verbatim>\<open>drivers/gpu/drm/panel/panel-lg-sw49410-rev1.c\<close>.
  Every kernel service the driver calls (regulators, pin control, the reset GPIO, the
  DSI command channel, the backlight class, sleeps) is a leaf: the model appends the
  call to a trace and takes the call's return code from an environment, an arbitrary
  function of the calls made so far and of the call being made. Return codes are C
  \<^verbatim>\<open>int\<close>s used only in the tests \<^verbatim>\<open>ret < 0\<close> and \<^verbatim>\<open>if (ret)\<close>, so they are modelled as
  \<^typ>\<open>int\<close>. Log output (\<^verbatim>\<open>pr_err\<close>, \<^verbatim>\<open>dev_err\<close>, \<^verbatim>\<open>DRM_DEV_ERROR\<close>) is not modelled.
\<close>

subsection \<open>Hardware leaves\<close>

type_synonym u8 = "8 word"
type_synonym u16 = "16 word"
type_synonym u32 = "32 word"

datatype hw_op =
    RegulatorSetLoad nat nat
  | RegulatorBulkEnable
  | RegulatorBulkDisable
  | PinctrlSelectState bool
  | GpiodSetValue bool
  | UsleepRange nat nat
  | Msleep nat
  | DcsWrite u8 "u8 list"
  | DcsWriteBuffer "u8 list"
  | DcsSetTearOn nat
  | DcsSetPageAddress u16 u16
  | DcsSetDisplayBrightness u16
  | DcsGetDisplayBrightness
  | DcsExitSleepMode
  | DcsSetDisplayOn
  | BacklightEnable
  | DevmKzalloc
  | DevmRegulatorBulkGet
  | DevmGpiodGet
  | DevmPinctrlGet
  | PinctrlLookupState string
  | DevmBacklightDeviceRegister
  | DrmPanelAdd
  | MipiDsiAttach

text \<open>
  \<^term>\<open>PinctrlSelectState True\<close> selects \<^verbatim>\<open>panel->active\<close>, \<^term>\<open>PinctrlSelectState False\<close>
  selects \<^verbatim>\<open>panel->suspend\<close>; \<^term>\<open>GpiodSetValue v\<close> writes the reset GPIO.
  \<^term>\<open>DcsWrite cmd payload\<close> is \<^verbatim>\<open>mipi_dsi_dcs_write(link, cmd, data, len)\<close> with the
  \<^verbatim>\<open>len\<close> bytes at \<^verbatim>\<open>data\<close> as payload (empty for \<^verbatim>\<open>NULL, 0\<close>).
\<close>

type_synonym hw_env = "hw_op list \<Rightarrow> hw_op \<Rightarrow> int"

record hw_state =
  trace :: "(hw_op \<times> int) list"
  reset_gpio :: bool

definition ops :: "hw_state \<Rightarrow> hw_op list" where
  "ops hw = map fst (trace hw)"

definition hw_log :: "hw_op \<Rightarrow> int \<Rightarrow> hw_state \<Rightarrow> hw_state" where
  "hw_log op ret hw = hw\<lparr>trace := trace hw @ [(op, ret)]\<rparr>"

definition hw_call :: "hw_env \<Rightarrow> hw_op \<Rightarrow> hw_state \<Rightarrow> int \<times> hw_state" where
  "hw_call env op hw = (let ret = env (ops hw) op in (ret, hw_log op ret hw))"

definition hw_void :: "hw_op \<Rightarrow> hw_state \<Rightarrow> hw_state" where
  "hw_void op hw = hw_log op 0 hw"

definition regulator_set_load :: "hw_env \<Rightarrow> nat \<Rightarrow> nat \<Rightarrow> hw_state \<Rightarrow> int \<times> hw_state" where
  "regulator_set_load env i load_uA hw = hw_call env (RegulatorSetLoad i load_uA) hw"

definition regulator_bulk_enable :: "hw_env \<Rightarrow> hw_state \<Rightarrow> int \<times> hw_state" where
  "regulator_bulk_enable env hw = hw_call env RegulatorBulkEnable hw"

definition regulator_bulk_disable :: "hw_env \<Rightarrow> hw_state \<Rightarrow> int \<times> hw_state" where
  "regulator_bulk_disable env hw = hw_call env RegulatorBulkDisable hw"

definition pinctrl_select_state :: "hw_env \<Rightarrow> bool \<Rightarrow> hw_state \<Rightarrow> int \<times> hw_state" where
  "pinctrl_select_state env active hw = hw_call env (PinctrlSelectState active) hw"

definition gpiod_set_value :: "bool \<Rightarrow> hw_state \<Rightarrow> hw_state" where
  "gpiod_set_value v hw = (hw_void (GpiodSetValue v) hw)\<lparr>reset_gpio := v\<rparr>"

definition usleep_range :: "nat \<Rightarrow> nat \<Rightarrow> hw_state \<Rightarrow> hw_state" where
  "usleep_range lo hi hw = hw_void (UsleepRange lo hi) hw"

definition msleep :: "nat \<Rightarrow> hw_state \<Rightarrow> hw_state" where
  "msleep ms hw = hw_void (Msleep ms) hw"

definition mipi_dsi_dcs_write :: "hw_env \<Rightarrow> u8 \<Rightarrow> u8 list \<Rightarrow> hw_state \<Rightarrow> int \<times> hw_state" where
  "mipi_dsi_dcs_write env cmd payload hw = hw_call env (DcsWrite cmd payload) hw"

subsection \<open>Command batches\<close>

text \<open>
  \<^verbatim>\<open>struct panel_cmd { size_t len; const char *data; }\<close>. \<^verbatim>\<open>data\<close> is the array pointed to
  (empty for \<^verbatim>\<open>NULL\<close>). The driver is built for arm64, where \<^verbatim>\<open>char\<close> is unsigned, so a
  byte is a \<^typ>\<open>u8\<close>. \<^verbatim>\<open>_INIT_CMD\<close> sets \<^verbatim>\<open>len\<close> to the size of the array.
\<close>

record panel_cmd =
  len :: nat
  data :: "u8 list"

definition INIT_CMD :: "u8 list \<Rightarrow> panel_cmd" where
  "INIT_CMD bytes = \<lparr>len = length bytes, data = bytes\<rparr>"

definition EFAULT :: int where
  "EFAULT = 14"

definition ENOMEM :: int where
  "ENOMEM = 12"

text \<open>
  The loop of \<^verbatim>\<open>send_mipi_cmds\<close>, over the array from \<^verbatim>\<open>cmds[i]\<close> on. \<^term>\<open>None\<close> is
  undefined behaviour in C: reading \<^verbatim>\<open>cmds[i]\<close> past the end of an array that has no
  zero-length entry, reading \<^verbatim>\<open>data[1]\<close> of an array shorter than two bytes, or handing
  \<^verbatim>\<open>mipi_dsi_dcs_write\<close> a range \<^verbatim>\<open>data + 2, len - 2\<close> that leaves the array (for
  \<^verbatim>\<open>len = 1\<close> the unsigned \<^verbatim>\<open>len - 2\<close> wraps).
\<close>

fun send_mipi_cmds_loop :: "hw_env \<Rightarrow> panel_cmd list \<Rightarrow> hw_state \<Rightarrow> (int \<times> hw_state) option" where
  "send_mipi_cmds_loop env [] hw = None"
| "send_mipi_cmds_loop env (cmd # cmds) hw =
     (if len cmd = 0 then Some (0, hw)
      else if length (data cmd) < 2 then None
      else if len cmd \<noteq> 2 \<and> (len cmd < 2 \<or> length (data cmd) < len cmd) then None
      else
        (case (if len cmd = 2
               then mipi_dsi_dcs_write env (data cmd ! 1) [] hw
               else mipi_dsi_dcs_write env (data cmd ! 1)
                      (take (len cmd - 2) (drop 2 (data cmd))) hw) of
           (err, hw1) \<Rightarrow>
             if err < 0 then Some (err, hw1)
             else send_mipi_cmds_loop env cmds
                    (usleep_range (unat (data cmd ! 0) * 1000)
                       ((1 + unat (data cmd ! 0)) * 1000) hw1)))"

definition send_mipi_cmds :: "hw_env \<Rightarrow> panel_cmd list option \<Rightarrow> hw_state \<Rightarrow> (int \<times> hw_state) option" where
  "send_mipi_cmds env cmds hw =
     (case cmds of
        None \<Rightarrow> Some (- EFAULT, hw)
      | Some cs \<Rightarrow> send_mipi_cmds_loop env cs hw)"

definition lg_sw49410_rev1_on_cmds_1 :: "panel_cmd list" where
  "lg_sw49410_rev1_on_cmds_1 =
     [INIT_CMD [0x00, 0x26, 0x02],
      INIT_CMD [0x00, 0x35, 0x00],
      INIT_CMD [0x00, 0x53, 0x0C, 0x30],
      INIT_CMD [0x00, 0x55, 0x00, 0x70, 0xDF, 0x00, 0x70, 0xDF],
      INIT_CMD [0x00, 0xF7, 0x01, 0x49, 0x0C],
      \<lparr>len = 0, data = []\<rparr>]"

definition lg_sw49410_rev1_on_cmds_2 :: "panel_cmd list" where
  "lg_sw49410_rev1_on_cmds_2 =
     [INIT_CMD [0x00, 0xB0, 0xAC],
      INIT_CMD [0x00, 0xCD,
                0x00, 0x00, 0x00, 0x19, 0x19, 0x19, 0x19, 0x19,
                0x19, 0x19, 0x19, 0x19, 0x19, 0x19, 0x19, 0x19,
                0x16, 0x16],
      INIT_CMD [0x00, 0xCB, 0x80, 0x5C, 0x07, 0x03, 0x28],
      INIT_CMD [0x00, 0xC0, 0x02, 0x02, 0x0F],
      INIT_CMD [0x00, 0xE5, 0x00, 0x3A, 0x00, 0x3A, 0x00, 0x0E, 0x10],
      INIT_CMD [0x00, 0xB5,
                0x75, 0x60, 0x2D, 0x5D, 0x80, 0x00, 0x0A, 0x0B,
                0x00, 0x05, 0x0B, 0x00, 0x80, 0x0D, 0x0E, 0x40,
                0x00, 0x0C, 0x00, 0x16, 0x00, 0xB8, 0x00, 0x80,
                0x0D, 0x0E, 0x40, 0x00, 0x0C, 0x00, 0x16, 0x00,
                0xB8, 0x00, 0x81, 0x00, 0x03, 0x03, 0x03, 0x01,
                0x01],
      INIT_CMD [0x00, 0x55, 0x04, 0x61, 0xDB, 0x04, 0x70, 0xDB],
      INIT_CMD [0x00, 0xB0, 0xCA],
      \<lparr>len = 0, data = []\<rparr>]"

subsection \<open>Constants of the kernel headers\<close>

text \<open>
  Modelled from the spec: the headers that define these names are not part of the
  driver's file, and the specification uses them by name only. The values are those of
  \<^verbatim>\<open>include/video/mipi_display.h\<close>, \<^verbatim>\<open>include/drm/drm_mipi_dsi.h\<close>,
  \<^verbatim>\<open>include/uapi/linux/fb.h\<close> and \<^verbatim>\<open>include/linux/backlight.h\<close>.
\<close>

definition MIPI_DCS_ENTER_NORMAL_MODE :: u8 where
  "MIPI_DCS_ENTER_NORMAL_MODE = 0x13"

definition MIPI_DCS_WRITE_CONTROL_DISPLAY :: u8 where
  "MIPI_DCS_WRITE_CONTROL_DISPLAY = 0x53"

definition MIPI_DCS_WRITE_POWER_SAVE :: u8 where
  "MIPI_DCS_WRITE_POWER_SAVE = 0x55"

definition MIPI_DCS_SET_CABC_MIN_BRIGHTNESS :: u8 where
  "MIPI_DCS_SET_CABC_MIN_BRIGHTNESS = 0x5E"

definition MIPI_DSI_COMPRESSION_MODE :: u8 where
  "MIPI_DSI_COMPRESSION_MODE = 0x07"

definition MIPI_DSI_DCS_TEAR_MODE_VBLANK :: nat where
  "MIPI_DSI_DCS_TEAR_MODE_VBLANK = 0"

definition FB_BLANK_UNBLANK :: int where
  "FB_BLANK_UNBLANK = 0"

definition BL_CORE_FBBLANK :: u32 where
  "BL_CORE_FBBLANK = push_bit 1 1"

subsection \<open>Panel state\<close>

text \<open>
  \<^verbatim>\<open>struct panel_info\<close>. The fields that only hold handles to kernel objects
  (\<^verbatim>\<open>link\<close>, \<^verbatim>\<open>desc\<close>, \<^verbatim>\<open>backlight\<close>, \<^verbatim>\<open>supplies\<close>, \<^verbatim>\<open>reset_gpio\<close>, \<^verbatim>\<open>pinctrl\<close>,
  \<^verbatim>\<open>active\<close>, \<^verbatim>\<open>suspend\<close>) are the leaves themselves here. \<^verbatim>\<open>dsc\<close> is \<^verbatim>\<open>base.dsc\<close>.
\<close>

record drm_dsc_config =
  dsc_version_major :: nat
  dsc_version_minor :: nat
  slice_height :: nat
  slice_width :: nat
  slice_count :: nat
  bits_per_component :: nat
  bits_per_pixel :: nat
  block_pred_enable :: bool

record panel_info =
  brightness :: u32
  max_brightness :: u32
  init_delay_us :: u32
  prepared :: bool
  enabled :: bool
  first_enable :: bool
  dsc :: "drm_dsc_config option"

definition regulator_enable_loads :: "nat list" where
  "regulator_enable_loads = [1700000]"

definition regulator_disable_loads :: "nat list" where
  "regulator_disable_loads = [100]"

subsection \<open>Power sequencing\<close>

text \<open>
  The loop \<^verbatim>\<open>for (i = 0; i < ARRAY_SIZE(pinfo->supplies); i++)\<close> that sets each rail's
  load and returns the first non-zero result; the list holds the loads from index \<open>i\<close>
  on. The pair returned is \<^verbatim>\<open>ret\<close> and the hardware after the loop; 0 when the loop ran
  to its end.
\<close>

fun regulator_set_loads :: "hw_env \<Rightarrow> nat \<Rightarrow> nat list \<Rightarrow> hw_state \<Rightarrow> int \<times> hw_state" where
  "regulator_set_loads env i [] hw = (0, hw)"
| "regulator_set_loads env i (l # ls) hw =
     (case regulator_set_load env i l hw of
        (ret, hw1) \<Rightarrow>
          if ret \<noteq> 0 then (ret, hw1)
          else regulator_set_loads env (Suc i) ls hw1)"

definition reset_pulse :: "hw_state \<Rightarrow> hw_state" where
  "reset_pulse hw =
     usleep_range 30000 10000
       (gpiod_set_value True
          (usleep_range 30000 2000
             (gpiod_set_value False
                (usleep_range 30000 10000
                   (gpiod_set_value True hw)))))"

definition panel_reset_at_beginning :: "hw_env \<Rightarrow> hw_state \<Rightarrow> int \<times> hw_state" where
  "panel_reset_at_beginning env hw =
     (case regulator_set_loads env 0 regulator_enable_loads hw of
        (ret, hw1) \<Rightarrow>
          if ret \<noteq> 0 then (ret, hw1)
          else
     (case regulator_bulk_enable env hw1 of
        (ret, hw2) \<Rightarrow>
          if ret < 0 then (ret, hw2)
          else
     (case regulator_set_loads env 0 regulator_disable_loads hw2 of
        (ret, hw3) \<Rightarrow>
          if ret \<noteq> 0 then (ret, hw3)
          else
     (case regulator_bulk_disable env hw3 of
        (ret, hw4) \<Rightarrow>
          if ret < 0 then (ret, hw4)
          else (0, reset_pulse hw4)))))"

definition panel_set_pinctrl_state :: "hw_env \<Rightarrow> bool \<Rightarrow> hw_state \<Rightarrow> int \<times> hw_state" where
  "panel_set_pinctrl_state env enable hw = pinctrl_select_state env enable hw"

definition lg_panel_power_off :: "hw_env \<Rightarrow> hw_state \<Rightarrow> int \<times> hw_state" where
  "lg_panel_power_off env hw =
     (case panel_set_pinctrl_state env False (gpiod_set_value False hw) of
        (ret, hw1) \<Rightarrow>
          if ret \<noteq> 0 then (ret, hw1)
          else
     (case regulator_set_loads env 0 regulator_disable_loads hw1 of
        (ret, hw2) \<Rightarrow>
          if ret \<noteq> 0 then (ret, hw2)
          else regulator_bulk_disable env hw2))"

definition lg_panel_power_on :: "hw_env \<Rightarrow> hw_state \<Rightarrow> int \<times> hw_state" where
  "lg_panel_power_on env hw =
     (case regulator_set_loads env 0 regulator_enable_loads hw of
        (ret, hw1) \<Rightarrow>
          if ret \<noteq> 0 then (ret, hw1)
          else
     (case regulator_bulk_enable env hw1 of
        (ret, hw2) \<Rightarrow>
          if ret < 0 then (ret, hw2)
          else
     (case panel_set_pinctrl_state env True hw2 of
        (ret, hw3) \<Rightarrow>
          if ret \<noteq> 0 then (ret, hw3)
          else (0, reset_pulse hw3))))"

subsection \<open>The lifecycle callbacks\<close>

definition lg_panel_disable :: "hw_env \<Rightarrow> panel_info \<Rightarrow> hw_state \<Rightarrow> int \<times> panel_info \<times> hw_state" where
  "lg_panel_disable env pinfo hw = (0, pinfo, hw)"

definition lg_panel_unprepare :: "hw_env \<Rightarrow> panel_info \<Rightarrow> hw_state \<Rightarrow> int \<times> panel_info \<times> hw_state" where
  "lg_panel_unprepare env pinfo hw = (0, pinfo, hw)"

definition mipi_dsi_dcs_write_buffer :: "hw_env \<Rightarrow> u8 list \<Rightarrow> hw_state \<Rightarrow> int \<times> hw_state" where
  "mipi_dsi_dcs_write_buffer env d hw = hw_call env (DcsWriteBuffer d) hw"

definition mipi_dsi_dcs_set_tear_on :: "hw_env \<Rightarrow> nat \<Rightarrow> hw_state \<Rightarrow> int \<times> hw_state" where
  "mipi_dsi_dcs_set_tear_on env mode hw = hw_call env (DcsSetTearOn mode) hw"

definition mipi_dsi_dcs_set_page_address :: "hw_env \<Rightarrow> u16 \<Rightarrow> u16 \<Rightarrow> hw_state \<Rightarrow> int \<times> hw_state" where
  "mipi_dsi_dcs_set_page_address env first_page last_page hw =
     hw_call env (DcsSetPageAddress first_page last_page) hw"

definition mipi_dsi_dcs_set_display_brightness :: "hw_env \<Rightarrow> u16 \<Rightarrow> hw_state \<Rightarrow> int \<times> hw_state" where
  "mipi_dsi_dcs_set_display_brightness env b hw = hw_call env (DcsSetDisplayBrightness b) hw"

definition mipi_dsi_dcs_exit_sleep_mode :: "hw_env \<Rightarrow> hw_state \<Rightarrow> int \<times> hw_state" where
  "mipi_dsi_dcs_exit_sleep_mode env hw = hw_call env DcsExitSleepMode hw"

definition mipi_dsi_dcs_set_display_on :: "hw_env \<Rightarrow> hw_state \<Rightarrow> int \<times> hw_state" where
  "mipi_dsi_dcs_set_display_on env hw = hw_call env DcsSetDisplayOn hw"

definition backlight_enable :: "hw_env \<Rightarrow> hw_state \<Rightarrow> int \<times> hw_state" where
  "backlight_enable env hw = hw_call env BacklightEnable hw"

text \<open>
  A run of consecutive \<^verbatim>\<open>dsi_dcs_write_seq(dsi, seq...)\<close> statements, each of which
  writes its bytes with \<^verbatim>\<open>mipi_dsi_dcs_write_buffer\<close> and makes the enclosing function
  return the result when it is negative. The result is that negative \<^verbatim>\<open>ret\<close>, or 0 when
  control falls through the last statement.
\<close>

fun dsi_dcs_write_seqs :: "hw_env \<Rightarrow> u8 list list \<Rightarrow> hw_state \<Rightarrow> int \<times> hw_state" where
  "dsi_dcs_write_seqs env [] hw = (0, hw)"
| "dsi_dcs_write_seqs env (d # ds) hw =
     (case mipi_dsi_dcs_write_buffer env d hw of
        (ret, hw1) \<Rightarrow>
          if ret < 0 then (ret, hw1)
          else dsi_dcs_write_seqs env ds hw1)"

text \<open>The byte sequences of lines 390 to 550 of the driver, in their order.\<close>

definition lg_panel_prepare_seqs :: "u8 list list" where
  "lg_panel_prepare_seqs =
     [
      [MIPI_DCS_WRITE_CONTROL_DISPLAY, 0x2c],
      [MIPI_DCS_SET_CABC_MIN_BRIGHTNESS, 0x00],
      [MIPI_DCS_WRITE_POWER_SAVE, 0x81],
      [0xb0, 0xac],
      [0xb3, 0x04, 0x04, 0x28, 0x08, 0x5a, 0x12, 0x23, 0x02],
      [0xb4, 0x11, 0x04, 0x02, 0x02, 0x02, 0x02, 0x02, 0x01, 0x01, 0x01, 0x01, 0x01,
       0x01, 0xd0, 0xe4, 0xe4, 0xe4, 0x93, 0x4e, 0x39, 0x0a, 0x10, 0x18, 0x25, 0x24,
       0x00, 0x00, 0x00, 0x00, 0x00, 0x00],
      [0xb5, 0x2e, 0x0f, 0x10, 0xc0, 0x00, 0x10, 0xc0, 0x00],
      [0xb6, 0x03, 0x05, 0x0b, 0xb3, 0x30],
      [0xb8, 0x57, 0x02, 0x90, 0x40, 0x5d, 0xd0, 0x05, 0x00, 0x00, 0x18, 0x22, 0x04,
       0x01, 0x02, 0x90, 0x40, 0x4c, 0xc0, 0x04, 0x00, 0x00, 0x18, 0x22, 0x04, 0x01,
       0x08, 0x00, 0x3a, 0x86, 0x83, 0x00],
      [0xb9, 0x64, 0x64, 0x2a, 0x3f, 0xee],
      [0xba, 0x3d, 0x1f, 0x01, 0xff, 0x01, 0x3c, 0x1f, 0x01, 0xff, 0x01, 0x00],
      [0xbc, 0x00, 0x00, 0x00, 0x90],
      [0xbd, 0x00, 0x00],
      [0xbf, 0x4f, 0x02],
      [0xc0, 0x00, 0x04, 0x18, 0x07, 0x11, 0x11, 0x3c, 0x00, 0x0a, 0x0a],
      [0xc1, 0x01, 0x00, 0xf0, 0xc2, 0xcf, 0x0c],
      [0xc2, 0xcc, 0x44, 0x44, 0x20, 0x22, 0x26, 0x21, 0x00],
      [0xc3, 0x92, 0x11, 0x09, 0x09, 0x11, 0xcc, 0x02, 0x02, 0xa4, 0xa4, 0x02, 0xa2,
       0x38, 0x28, 0x14, 0x40, 0x38, 0xc0],
      [0xc4, 0x26, 0x00],
      [0xc9, 0x05, 0x5d, 0x03, 0x04, 0x00],
      [0xca, 0x9b, 0x10],
      [0xcb, 0xf3, 0x90, 0x3d, 0x30, 0xcc],
      [0xcc, 0x00, 0x40, 0x50, 0x90, 0x41],
      [0xce, 0x00, 0x00],
      [0xd0, 0x12, 0x05, 0x20, 0x1b, 0x2c, 0x28, 0x3f, 0x3d, 0x4f, 0x4f, 0x66, 0x66,
       0x6e, 0x6e, 0x76, 0x76, 0x80, 0x80, 0x88, 0x88, 0x95, 0x95, 0x3f, 0x3f, 0xa2,
       0xa2, 0x94, 0x94, 0x8b, 0x8b, 0x81, 0x81, 0x75, 0x75, 0x66, 0x66, 0x47, 0x47,
       0x2d, 0x2d, 0x00, 0x01, 0x12, 0x05, 0x20, 0x1b, 0x2c, 0x28, 0x3f, 0x3d, 0x4f,
       0x4f, 0x66, 0x66, 0x6e, 0x6e, 0x76, 0x76, 0x80, 0x80, 0x88, 0x88, 0x95, 0x95,
       0x3f, 0x3f, 0xa2, 0xa2, 0x94, 0x94, 0x8b, 0x8b, 0x81, 0x81, 0x75, 0x75, 0x66,
       0x66, 0x47, 0x47, 0x2d, 0x2d, 0x00, 0x01, 0x12, 0x05, 0x20, 0x1b, 0x2c, 0x28,
       0x3f, 0x3d, 0x4f, 0x4f, 0x66, 0x66, 0x6e, 0x6e, 0x76, 0x76, 0x80, 0x80, 0x88,
       0x88, 0x95, 0x95, 0x3f, 0x3f, 0xa2, 0xa2, 0x94, 0x94, 0x8b, 0x8b, 0x81, 0x81,
       0x75, 0x75, 0x66, 0x66, 0x47, 0x47, 0x2d, 0x2d, 0x00, 0x01, 0x12, 0x05, 0x20,
       0x1b, 0x2c, 0x28, 0x3f, 0x3d, 0x4f, 0x4f, 0x66, 0x66, 0x6e, 0x6e, 0x76, 0x76,
       0x80, 0x80, 0x88, 0x88, 0x94, 0x94, 0x3f, 0x3f, 0xa4, 0xa4, 0x95, 0x95, 0x8b,
       0x8b, 0x81, 0x81, 0x75, 0x75, 0x66, 0x66, 0x47, 0x47, 0x2d, 0x2d, 0x00, 0x01],
      [0xd1, 0x12, 0x05, 0x20, 0x1b, 0x2e, 0x29, 0x41, 0x3f, 0x52, 0x52, 0x6a, 0x6a,
       0x72, 0x72, 0x7a, 0x7a, 0x84, 0x84, 0x8c, 0x8c, 0x9a, 0x9a, 0x3f, 0x3f, 0x9b,
       0x9b, 0x8d, 0x8d, 0x84, 0x84, 0x7a, 0x7a, 0x6e, 0x6e, 0x5f, 0x5f, 0x41, 0x41,
       0x2a, 0x2a, 0x00, 0x01, 0x12, 0x05, 0x20, 0x1b, 0x2e, 0x29, 0x41, 0x3f, 0x52,
       0x52, 0x6a, 0x6a, 0x72, 0x72, 0x7a, 0x7a, 0x84, 0x84, 0x8c, 0x8c, 0x9a, 0x9a,
       0x3f, 0x3f, 0x9b, 0x9b, 0x8d, 0x8d, 0x84, 0x84, 0x7a, 0x7a, 0x6e, 0x6e, 0x5f,
       0x5f, 0x41, 0x41, 0x2a, 0x2a, 0x00, 0x01, 0x12, 0x05, 0x20, 0x1b, 0x2e, 0x29,
       0x41, 0x3f, 0x52, 0x52, 0x6a, 0x6a, 0x72, 0x72, 0x7a, 0x7a, 0x84, 0x84, 0x8c,
       0x8c, 0x9a, 0x9a, 0x3f, 0x3f, 0x9b, 0x9b, 0x8d, 0x8d, 0x84, 0x84, 0x7a, 0x7a,
       0x6e, 0x6e, 0x5f, 0x5f, 0x41, 0x41, 0x2a, 0x2a, 0x00, 0x01, 0x12, 0x05, 0x20,
       0x1b, 0x2e, 0x29, 0x41, 0x3f, 0x52, 0x52, 0x6a, 0x6a, 0x72, 0x72, 0x7a, 0x7a,
       0x84, 0x84, 0x8c, 0x8c, 0x9a, 0x9a, 0x3f, 0x3f, 0x9b, 0x9b, 0x8d, 0x8d, 0x84,
       0x84, 0x7a, 0x7a, 0x6e, 0x6e, 0x5f, 0x5f, 0x41, 0x41, 0x2a, 0x2a, 0x00, 0x01],
      [0xd2, 0x12, 0x05, 0x20, 0x1b, 0x2f, 0x2a, 0x43, 0x41, 0x55, 0x55, 0x6e, 0x6e,
       0x76, 0x76, 0x7e, 0x7e, 0x88, 0x88, 0x90, 0x90, 0x9f, 0x9f, 0x3f, 0x3f, 0x95,
       0x95, 0x86, 0x86, 0x7d, 0x7d, 0x74, 0x74, 0x68, 0x68, 0x59, 0x59, 0x3c, 0x3c,
       0x26, 0x26, 0x00, 0x01, 0x12, 0x05, 0x20, 0x1b, 0x2f, 0x2a, 0x43, 0x41, 0x55,
       0x55, 0x6e, 0x6e, 0x76, 0x76, 0x7e, 0x7e, 0x88, 0x88, 0x90, 0x90, 0x9f, 0x9f,
       0x3f, 0x3f, 0x95, 0x95, 0x86, 0x86, 0x7d, 0x7d, 0x74, 0x74, 0x68, 0x68, 0x59,
       0x59, 0x3c, 0x3c, 0x26, 0x26, 0x00, 0x01, 0x12, 0x05, 0x20, 0x1b, 0x2f, 0x2a,
       0x43, 0x41, 0x55, 0x55, 0x6e, 0x6e, 0x76, 0x76, 0x7e, 0x7e, 0x88, 0x88, 0x90,
       0x90, 0x9f, 0x9f, 0x3f, 0x3f, 0x95, 0x95, 0x86, 0x86, 0x7d, 0x7d, 0x74, 0x74,
       0x68, 0x68, 0x59, 0x59, 0x3c, 0x3c, 0x26, 0x26, 0x00, 0x01, 0x12, 0x05, 0x20,
       0x1b, 0x2f, 0x2a, 0x43, 0x41, 0x55, 0x55, 0x6e, 0x6e, 0x76, 0x76, 0x7e, 0x7e,
       0x88, 0x88, 0x90, 0x90, 0x9f, 0x9f, 0x3f, 0x3f, 0x95, 0x95, 0x86, 0x86, 0x7d,
       0x7d, 0x74, 0x74, 0x68, 0x68, 0x59, 0x59, 0x3c, 0x3c, 0x26, 0x26, 0x00, 0x01],
      [0xd3, 0x12, 0x01, 0x00, 0x00],
      [0xd4, 0xdc, 0x5f, 0x9c, 0xbe, 0x39, 0x39, 0x39, 0x47, 0x48, 0x48, 0x48, 0x3a,
       0x00, 0x03, 0x6d, 0x80, 0x00, 0x00, 0x8c, 0x66, 0x00, 0x00, 0x8c, 0x66, 0x00,
       0x00, 0x8c, 0x66, 0x00, 0x0a, 0x48, 0x80, 0x00, 0x0a, 0x48, 0x80, 0x00, 0x0a,
       0x48, 0x80, 0x00, 0x0a, 0x48, 0x80, 0x20, 0x0a, 0x14, 0x0a, 0x18, 0x00, 0x1c,
       0xcc, 0x23, 0x9e, 0x23, 0x9e, 0x01, 0x01, 0x01, 0x01, 0x04, 0x04, 0x04, 0x04,
       0x01, 0x00, 0x02, 0x80, 0x00, 0x10, 0x00, 0x10, 0x00, 0x10, 0x13, 0x9e, 0x13,
       0x9e, 0x13, 0x9e, 0x13, 0x9e, 0x05, 0x05, 0x05, 0x05, 0x05, 0x05, 0x05, 0x05,
       0x23, 0x9e, 0xff, 0xff, 0x13, 0x33, 0x18, 0x00, 0x16, 0x66, 0x10, 0x00, 0xff,
       0x01, 0x00, 0x02, 0x00, 0x03, 0x00, 0x04, 0x00, 0x05, 0x00, 0x06, 0x00, 0x07,
       0x00, 0x08, 0x00, 0x09, 0x00, 0x0a, 0x00, 0x0b, 0x00, 0x0c, 0x00, 0x0d, 0x00,
       0x0e, 0x00, 0x0f, 0x00, 0x1b, 0x25, 0xdc, 0x18, 0x00, 0x20, 0x00, 0x1c, 0xe1,
       0x00, 0xff, 0xe0, 0xc8, 0xc8, 0x41, 0x8f],
      [0xad, 0x01, 0x02, 0x03, 0x04, 0x05, 0x06, 0x06, 0x06, 0x06, 0x06, 0x06, 0x06,
       0x06, 0x06, 0x06, 0x06, 0x20, 0x40, 0x60, 0x90, 0xc0, 0xf0, 0xff, 0xff, 0xff,
       0xff, 0xff, 0xff, 0xff, 0xff, 0xff, 0xff],
      [0xae, 0x01, 0x02, 0x03, 0x04, 0x05, 0x06, 0x06, 0x06, 0x06, 0x06, 0x06, 0x06,
       0x06, 0x06, 0x06, 0x06, 0x20, 0x40, 0x60, 0x90, 0xc0, 0xf0, 0xff, 0xff, 0xff,
       0xff, 0xff, 0xff, 0xff, 0xff, 0xff, 0xff],
      [0xe5, 0x0b, 0x0a, 0x0c, 0x00, 0x02, 0x04, 0x06, 0x08, 0x0f, 0x1b, 0x02, 0x1a,
       0x1a, 0x0b, 0x0a, 0x0c, 0x01, 0x03, 0x05, 0x07, 0x09, 0x10, 0x1b, 0x03, 0x1a,
       0x1a],
      [0xe6, 0x11, 0x12, 0x13, 0x14, 0x15, 0x16, 0x17, 0x18, 0x11, 0x12, 0x13, 0x14,
       0x15, 0x16, 0x17, 0x18],
      [0xed, 0x21, 0x49, 0x00, 0x00, 0x00, 0x00],
      [MIPI_DCS_WRITE_POWER_SAVE, 0x81],
      [0xf3, 0x00, 0x01, 0x00, 0x0d, 0x00],
      [0xf4, 0x00, 0x00, 0x40, 0x83, 0xc5, 0x00, 0x01, 0x00, 0x00, 0x00, 0x00, 0x00,
       0x00],
      [0xfb, 0x20, 0x40, 0x60, 0x80, 0xa0, 0xc0, 0xe0, 0x13, 0x18, 0x18, 0x18, 0x16,
       0x0d, 0x0d, 0x00, 0xc7, 0xcf, 0xd8, 0xe1, 0xea, 0xf3, 0xf9, 0xff],
      [0xf5, 0x00],
      [0xf6, 0x40, 0x40, 0x40, 0x40, 0x40, 0x40, 0x40, 0x40, 0x00, 0x00, 0x00, 0x00,
       0x00, 0x00, 0x00, 0x00],
      [0xf7, 0x40, 0x40, 0x40, 0x40, 0x40, 0x40, 0x40, 0x40, 0x00, 0x00, 0x00, 0x00,
       0x00, 0x00, 0x00, 0x00],
      [0xf8, 0x40, 0x40, 0x40, 0x40, 0x40, 0x40, 0x40, 0x40, 0x00, 0x00, 0x00, 0x00,
       0x00, 0x00, 0x00, 0x00],
      [0xfc, 0x13, 0x70, 0xd0, 0x26, 0x30, 0x7c, 0x02, 0xff, 0x12, 0x22, 0x22, 0x10,
       0x00],
      [MIPI_DCS_ENTER_NORMAL_MODE]
     ]"

text \<open>
  \<^verbatim>\<open>lg_panel_prepare\<close> in three parts: the one-time block guarded by \<^verbatim>\<open>first_enable\<close>
  (in \<^verbatim>\<open>lg_panel_prepare\<close> itself), the function from the test of \<^verbatim>\<open>prepared\<close> to the
  call of \<^verbatim>\<open>lg_panel_power_on\<close>, and the DCS traffic from \<^verbatim>\<open>mipi_dsi_dcs_set_tear_on\<close> to
  the end. \<^verbatim>\<open>prepare_poweroff\<close> is the code at the label \<^verbatim>\<open>poweroff\<close>.
\<close>

definition prepare_poweroff :: "int \<Rightarrow> panel_info \<Rightarrow> hw_state \<Rightarrow> int \<times> panel_info \<times> hw_state" where
  "prepare_poweroff err pinfo hw = (err, pinfo, gpiod_set_value True hw)"

definition lg_panel_prepare_dcs :: "hw_env \<Rightarrow> panel_info \<Rightarrow> hw_state \<Rightarrow> int \<times> panel_info \<times> hw_state" where
  "lg_panel_prepare_dcs env pinfo hw =
     (case mipi_dsi_dcs_set_tear_on env MIPI_DSI_DCS_TEAR_MODE_VBLANK hw of
        (ret, hw1) \<Rightarrow>
          if ret < 0 then (ret, pinfo, hw1)
          else
     (case mipi_dsi_dcs_set_page_address env 0x0000 0x0c2f hw1 of
        (ret, hw2) \<Rightarrow>
          if ret < 0 then (ret, pinfo, hw2)
          else
     (case mipi_dsi_dcs_set_display_brightness env 0x00ff hw2 of
        (ret, hw3) \<Rightarrow>
          if ret < 0 then (ret, pinfo, hw3)
          else
     (case dsi_dcs_write_seqs env lg_panel_prepare_seqs hw3 of
        (ret, hw4) \<Rightarrow>
          if ret < 0 then (ret, pinfo, hw4)
          else
     (case mipi_dsi_dcs_exit_sleep_mode env hw4 of
        (ret, hw5) \<Rightarrow>
          if ret < 0 then (ret, pinfo, hw5)
          else
     (case mipi_dsi_dcs_write env MIPI_DSI_COMPRESSION_MODE [] (msleep 256 hw5) of
        (err, hw6) \<Rightarrow>
          if err < 0 then prepare_poweroff err pinfo hw6
          else
     (case dsi_dcs_write_seqs env [[0xbd, 0x01, 0x05]] hw6 of
        (ret, hw7) \<Rightarrow>
          if ret < 0 then (ret, pinfo, hw7)
          else
     (case mipi_dsi_dcs_set_display_on env hw7 of
        (ret, hw8) \<Rightarrow>
          if ret < 0 then (ret, pinfo, hw8)
          else (0, pinfo\<lparr>prepared := True\<rparr>,
                msleep 120 (usleep_range 5000 6000 hw8))))))))))"

definition lg_panel_prepare_body :: "hw_env \<Rightarrow> panel_info \<Rightarrow> hw_state \<Rightarrow> int \<times> panel_info \<times> hw_state" where
  "lg_panel_prepare_body env pinfo hw =
     (if prepared pinfo then (0, pinfo, hw)
      else
        (case lg_panel_power_on env
                (usleep_range (unat (init_delay_us pinfo)) (unat (init_delay_us pinfo)) hw) of
           (err, hw1) \<Rightarrow>
             if err < 0 then prepare_poweroff err pinfo hw1
             else lg_panel_prepare_dcs env pinfo hw1))"

definition lg_panel_prepare :: "hw_env \<Rightarrow> panel_info \<Rightarrow> hw_state \<Rightarrow> int \<times> panel_info \<times> hw_state" where
  "lg_panel_prepare env pinfo hw =
     (if first_enable pinfo
      then
        (case panel_reset_at_beginning env hw of
           (err, hw1) \<Rightarrow>
             if err < 0 then (err, pinfo\<lparr>first_enable := False\<rparr>, hw1)
             else lg_panel_prepare_body env (pinfo\<lparr>first_enable := False\<rparr>) hw1)
      else lg_panel_prepare_body env pinfo hw)"

text \<open>
  \<^verbatim>\<open>lg_panel_enable\<close>. With \<^verbatim>\<open>panel->dsc\<close> set the driver packs the picture parameter set
  and prints it; the call that would send it is commented out, so neither branch of
  the test of \<^verbatim>\<open>panel->dsc\<close> touches the hardware or the panel state.
\<close>

definition lg_panel_enable :: "hw_env \<Rightarrow> panel_info \<Rightarrow> hw_state \<Rightarrow> int \<times> panel_info \<times> hw_state" where
  "lg_panel_enable env pinfo hw =
     (if enabled pinfo then (0, pinfo, hw)
      else
        (case backlight_enable env hw of
           (ret, hw1) \<Rightarrow>
             if ret \<noteq> 0 then (ret, pinfo, hw1)
             else (0, pinfo\<lparr>enabled := True\<rparr>, hw1)))"

subsection \<open>Backlight\<close>

text \<open>
  The fields of \<^verbatim>\<open>bl->props\<close> the driver reads: three C \<^verbatim>\<open>int\<close>s and the
  \<^verbatim>\<open>unsigned int state\<close>. Storing the \<^verbatim>\<open>int\<close> brightness into the \<^verbatim>\<open>u32\<close> field of the
  panel converts it modulo \<open>2^32\<close>; \<^verbatim>\<open>mipi_dsi_dcs_set_display_brightness\<close> takes a
  \<^verbatim>\<open>u16\<close> (\<^verbatim>\<open>include/drm/drm_mipi_dsi.h\<close>), so the call keeps the low 16 bits of the
  field.
\<close>

record backlight_properties =
  props_brightness :: int
  props_power :: int
  props_fb_blank :: int
  props_state :: u32

definition lg_panel_backlight_update_status ::
    "hw_env \<Rightarrow> backlight_properties \<Rightarrow> panel_info \<Rightarrow> hw_state \<Rightarrow> int \<times> panel_info \<times> hw_state" where
  "lg_panel_backlight_update_status env props pinfo hw =
     (let pinfo1 =
            (if props_power props \<noteq> FB_BLANK_UNBLANK \<or>
                props_fb_blank props \<noteq> FB_BLANK_UNBLANK \<or>
                props_state props AND BL_CORE_FBBLANK \<noteq> 0
             then pinfo\<lparr>brightness := 0\<rparr>
             else pinfo\<lparr>brightness := word_of_int (props_brightness props)\<rparr>)
      in (case mipi_dsi_dcs_set_display_brightness env (ucast (brightness pinfo1)) hw of
            (ret, hw1) \<Rightarrow> (ret, pinfo1, hw1)))"

subsection \<open>Construction\<close>

text \<open>
  A leaf that returns a pointer is given a return code too: negative for an
  \<^verbatim>\<open>ERR_PTR\<close>, 0 for \<^verbatim>\<open>NULL\<close>, positive for a valid pointer, so that \<^verbatim>\<open>IS_ERR\<close> is \<open>< 0\<close>,
  \<^verbatim>\<open>IS_ERR_OR_NULL\<close> is \<open>\<le> 0\<close> and \<^verbatim>\<open>PTR_ERR\<close> is the code. \<^verbatim>\<open>devm_kzalloc\<close> returns
  zero-filled memory: every flag of a fresh \<^verbatim>\<open>panel_info\<close> is false.
\<close>

definition panel_info_kzalloc :: panel_info where
  "panel_info_kzalloc =
     \<lparr>brightness = 0, max_brightness = 0, init_delay_us = 0,
      prepared = False, enabled = False, first_enable = False, dsc = None\<rparr>"

definition lg_panel_backlight_init :: "hw_env \<Rightarrow> panel_info \<Rightarrow> hw_state \<Rightarrow> int \<times> panel_info \<times> hw_state" where
  "lg_panel_backlight_init env pinfo hw =
     (let pinfo1 = pinfo\<lparr>max_brightness := 255\<rparr>;
          pinfo2 = pinfo1\<lparr>brightness := max_brightness pinfo1\<rparr>
      in (case hw_call env DevmBacklightDeviceRegister hw of
            (bl, hw1) \<Rightarrow>
              if bl < 0 then (bl, pinfo2, hw1)
              else (0, pinfo2, hw1)))"

definition panel_pinctrl_init :: "hw_env \<Rightarrow> hw_state \<Rightarrow> int \<times> hw_state" where
  "panel_pinctrl_init env hw =
     (case hw_call env DevmPinctrlGet hw of
        (pinctrl, hw1) \<Rightarrow>
          if pinctrl \<le> 0 then (pinctrl, hw1)
          else
     (case hw_call env (PinctrlLookupState ''panel_active'') hw1 of
        (active, hw2) \<Rightarrow>
          if active \<le> 0 then (active, hw2)
          else
     (case hw_call env (PinctrlLookupState ''panel_suspend'') hw2 of
        (suspend, hw3) \<Rightarrow>
          if suspend \<le> 0 then (suspend, hw3)
          else (0, hw3))))"

text \<open>
  \<^verbatim>\<open>devm_gpiod_get(dev, "reset", GPIOD_OUT_HIGH)\<close> makes the reset line an output that
  drives high.
\<close>

definition panel_add :: "hw_env \<Rightarrow> panel_info \<Rightarrow> hw_state \<Rightarrow> int \<times> panel_info \<times> hw_state" where
  "panel_add env pinfo hw =
     (let pinfo1 = pinfo\<lparr>init_delay_us := 5000\<rparr> in
     (case hw_call env DevmRegulatorBulkGet hw of
        (ret, hw1) \<Rightarrow>
          if ret < 0 then (ret, pinfo1, hw1)
          else
     (case hw_call env DevmGpiodGet hw1 of
        (gpio, hw2) \<Rightarrow>
          if gpio < 0 then (gpio, pinfo1, hw2)
          else
     (case panel_pinctrl_init env (hw2\<lparr>reset_gpio := True\<rparr>) of
        (ret, hw3) \<Rightarrow>
          if ret < 0 then (ret, pinfo1, hw3)
          else
     (case lg_panel_backlight_init env pinfo1 hw3 of
        (ret, pinfo2, hw4) \<Rightarrow>
          if ret < 0 then (ret, pinfo2, hw4)
          else (ret, pinfo2, hw_void DrmPanelAdd hw4))))))"

definition panel_probe :: "hw_env \<Rightarrow> hw_state \<Rightarrow> int \<times> panel_info option \<times> hw_state" where
  "panel_probe env hw =
     (case hw_call env DevmKzalloc hw of
        (mem, hw1) \<Rightarrow>
          if mem = 0 then (- ENOMEM, None, hw1)
          else
     (case panel_add env panel_info_kzalloc hw1 of
        (err, pinfo1, hw2) \<Rightarrow>
          if err < 0 then (err, Some pinfo1, hw2)
          else
     (case hw_call env MipiDsiAttach hw2 of
        (err, hw3) \<Rightarrow>
          if err < 0 then (err, Some pinfo1, hw3)
          else
     (case hw_call env DevmKzalloc hw3 of
        (mem, hw4) \<Rightarrow>
          if mem = 0 then (- ENOMEM, Some pinfo1, hw4)
          else (err,
                Some (pinfo1\<lparr>dsc := Some
                   \<lparr>dsc_version_major = 17, dsc_version_minor = 1,
                    slice_height = 60, slice_width = 720, slice_count = 4,
                    bits_per_component = 10, bits_per_pixel = 10,
                    block_pred_enable = True\<rparr>\<rparr>),
                hw4)))))"

subsection \<open>The host's calls\<close>

text \<open>
  The DRM framework reaches the driver through \<^verbatim>\<open>panel_funcs\<close>. A life of the panel is
  a successful probe followed by any sequence of these calls, whose return codes the
  host may ignore.
\<close>

datatype panel_call = Prepare | Unprepare | Enable | Disable

fun panel_funcs :: "hw_env \<Rightarrow> panel_call \<Rightarrow> panel_info \<Rightarrow> hw_state \<Rightarrow> int \<times> panel_info \<times> hw_state" where
  "panel_funcs env Prepare = lg_panel_prepare env"
| "panel_funcs env Unprepare = lg_panel_unprepare env"
| "panel_funcs env Enable = lg_panel_enable env"
| "panel_funcs env Disable = lg_panel_disable env"

fun run :: "hw_env \<Rightarrow> panel_call list \<Rightarrow> panel_info \<times> hw_state \<Rightarrow> panel_info \<times> hw_state" where
  "run env [] st = st"
| "run env (c # cs) st = run env cs (snd (panel_funcs env c (fst st) (snd st)))"

definition lifecycle :: "hw_env \<Rightarrow> panel_call list \<Rightarrow> hw_state \<Rightarrow> (panel_info \<times> hw_state) option" where
  "lifecycle env calls hw =
     (case panel_probe env hw of
        (err, Some pinfo, hw1) \<Rightarrow> if err = 0 then Some (run env calls (pinfo, hw1)) else None
      | (err, None, hw1) \<Rightarrow> None)"

text \<open>
  The order the DRM framework documents for its panels: \<^verbatim>\<open>enable\<close> is called on a panel
  that \<^verbatim>\<open>prepare\<close> has prepared.
\<close>

fun enable_when_prepared :: "hw_env \<Rightarrow> panel_call list \<Rightarrow> panel_info \<times> hw_state \<Rightarrow> bool" where
  "enable_when_prepared env [] st = True"
| "enable_when_prepared env (c # cs) st =
     ((if c = Enable then prepared (fst st) else True) \<and>
      enable_when_prepared env cs (snd (panel_funcs env c (fst st) (snd st))))"

text \<open>Hardware on which every call succeeds, and the hardware before the probe.\<close>

definition env_ok :: hw_env where
  "env_ok tr op =
     (if op = DevmKzalloc \<or> op = DevmGpiodGet \<or> op = DevmPinctrlGet \<or>
         op = PinctrlLookupState ''panel_active'' \<or>
         op = PinctrlLookupState ''panel_suspend'' \<or>
         op = DevmBacklightDeviceRegister
      then 1 else 0)"

definition hw_boot :: hw_state where
  "hw_boot = \<lparr>trace = [], reset_gpio = False\<rparr>"

text \<open>Hardware that answers one call with a given code and succeeds otherwise.\<close>

definition env_fail_on :: "hw_op \<Rightarrow> int \<Rightarrow> hw_env" where
  "env_fail_on failing code tr op = (if op = failing then code else env_ok tr op)"

text \<open>A request of the backlight class for brightness \<open>b\<close> on an unblanked display.\<close>

definition props_unblanked :: "int \<Rightarrow> backlight_properties" where
  "props_unblanked b =
     \<lparr>props_brightness = b, props_power = FB_BLANK_UNBLANK,
      props_fb_blank = FB_BLANK_UNBLANK, props_state = 0\<rparr>"

subsection \<open>What a batch puts on the wire\<close>

text \<open>
  The reading of a command the specification gives: byte 0 is the delay in
  milliseconds, byte 1 the DCS address, the rest the payload. A command is valid when
  it has at least these two bytes and \<^verbatim>\<open>len\<close> does not exceed the array.
\<close>

definition cmd_valid :: "panel_cmd \<Rightarrow> bool" where
  "cmd_valid c = (2 \<le> len c \<and> len c \<le> length (data c))"

definition cmd_delay_ms :: "panel_cmd \<Rightarrow> nat" where
  "cmd_delay_ms c = unat (data c ! 0)"

definition cmd_payload :: "panel_cmd \<Rightarrow> u8 list" where
  "cmd_payload c = take (len c - 2) (drop 2 (data c))"

definition cmd_write :: "panel_cmd \<Rightarrow> hw_op" where
  "cmd_write c = DcsWrite (data c ! 1) (cmd_payload c)"

definition cmd_delay :: "panel_cmd \<Rightarrow> hw_op" where
  "cmd_delay c = UsleepRange (cmd_delay_ms c * 1000) ((1 + cmd_delay_ms c) * 1000)"

fun batch_wire :: "panel_cmd list \<Rightarrow> hw_op list" where
  "batch_wire [] = []"
| "batch_wire (c # cs) = cmd_write c # cmd_delay c # batch_wire cs"

definition writes_accepted :: "hw_env \<Rightarrow> hw_op list \<Rightarrow> panel_cmd list \<Rightarrow> bool" where
  "writes_accepted env before cs =
     (\<forall>j<length cs. 0 \<le> env (before @ batch_wire (take j cs)) (cmd_write (cs ! j)))"

subsection \<open>Failures on the trace\<close>

text \<open>
  The return codes of the calls that failed, oldest first: a leaf fails when it
  returns a negative code. \<^term>\<open>new_events hw hw'\<close> are the calls made between the
  hardware states \<open>hw\<close> and \<open>hw'\<close>.
\<close>

definition failed_codes :: "hw_state \<Rightarrow> int list" where
  "failed_codes hw = filter (\<lambda>e. e < 0) (map snd (trace hw))"

definition new_events :: "hw_state \<Rightarrow> hw_state \<Rightarrow> (hw_op \<times> int) list" where
  "new_events hw hw' = drop (length (trace hw)) (trace hw')"

text \<open>
  A composite step from \<open>hw\<close> to \<open>hw'\<close> with result \<open>r\<close> only appends to the trace, and
  the one call that failed in it, if any, is the one whose code it returns.
\<close>

definition step_ok :: "hw_state \<Rightarrow> int \<Rightarrow> hw_state \<Rightarrow> bool" where
  "step_ok hw r hw' =
     ((\<exists>evs. trace hw' = trace hw @ evs) \<and>
      failed_codes hw' = failed_codes hw @ (if r < 0 then [r] else []))"

text \<open>
  The kernel documents \<^verbatim>\<open>regulator_set_load\<close> and \<^verbatim>\<open>pinctrl_select_state\<close> as returning
  0 or a negative errno; the driver tests both with \<^verbatim>\<open>if (ret)\<close>.
\<close>

definition errno_convention :: "hw_env \<Rightarrow> bool" where
  "errno_convention env =
     (\<forall>tr. (\<forall>i l. env tr (RegulatorSetLoad i l) \<le> 0) \<and>
           (\<forall>b. env tr (PinctrlSelectState b) \<le> 0))"

section \<open>Properties\<close>

subsection \<open>Leaves\<close>

lemma hw_call_eq [simp]:
  "hw_call env op hw = (env (ops hw) op, hw_log op (env (ops hw) op) hw)"
  by (simp add: hw_call_def Let_def)

lemma ops_hw_log [simp]: "ops (hw_log op ret hw) = ops hw @ [op]"
  by (simp add: hw_log_def ops_def)

lemma trace_hw_log [simp]: "trace (hw_log op ret hw) = trace hw @ [(op, ret)]"
  by (simp add: hw_log_def)

lemma reset_hw_log [simp]: "reset_gpio (hw_log op ret hw) = reset_gpio hw"
  by (simp add: hw_log_def)

lemma ops_reset_update [simp]: "ops (hw\<lparr>reset_gpio := v\<rparr>) = ops hw"
  by (simp add: ops_def)

subsection \<open>The batch engine\<close>

lemma cmd_valid_step:
  assumes "cmd_valid c"
  shows "send_mipi_cmds_loop env (c # cs) hw =
           (if env (ops hw) (cmd_write c) < 0
            then Some (env (ops hw) (cmd_write c), hw_log (cmd_write c) (env (ops hw) (cmd_write c)) hw)
            else send_mipi_cmds_loop env cs
                   (hw_log (cmd_delay c) 0 (hw_log (cmd_write c) (env (ops hw) (cmd_write c)) hw)))"
  using assms
  by (simp add: cmd_valid_def cmd_write_def cmd_payload_def cmd_delay_def cmd_delay_ms_def
      mipi_dsi_dcs_write_def usleep_range_def hw_void_def)

lemma writes_accepted_Cons:
  "writes_accepted env before (c # cs) =
     (0 \<le> env before (cmd_write c) \<and>
      writes_accepted env (before @ [cmd_write c, cmd_delay c]) cs)"
proof -
  have "(\<forall>j<Suc (length cs). 0 \<le> env (before @ batch_wire (take j (c # cs))) (cmd_write ((c # cs) ! j)))
      = (0 \<le> env before (cmd_write c) \<and>
         (\<forall>j<length cs. 0 \<le> env (before @ batch_wire (take (Suc j) (c # cs))) (cmd_write ((c # cs) ! Suc j))))"
    by (auto simp: less_Suc_eq_0_disj)
  then show ?thesis
    by (simp add: writes_accepted_def)
qed

lemma loop_accepted_prefix:
  assumes "\<forall>c\<in>set cs. cmd_valid c" and "writes_accepted env (ops hw) cs"
  shows "\<exists>hw1. ops hw1 = ops hw @ batch_wire cs \<and> reset_gpio hw1 = reset_gpio hw \<and>
           (\<forall>rest. send_mipi_cmds_loop env (cs @ rest) hw = send_mipi_cmds_loop env rest hw1)"
  using assms
proof (induction cs arbitrary: hw)
  case Nil
  show ?case by (intro exI [of _ hw]) simp
next
  case (Cons c cs)
  let ?hw = "hw_log (cmd_delay c) 0 (hw_log (cmd_write c) (env (ops hw) (cmd_write c)) hw)"
  from Cons.prems have ok: "0 \<le> env (ops hw) (cmd_write c)"
    and later: "writes_accepted env (ops ?hw) cs"
    by (simp_all add: writes_accepted_Cons)
  from Cons.prems have valid: "cmd_valid c" "\<forall>c\<in>set cs. cmd_valid c"
    by simp_all
  from Cons.IH [OF valid(2) later] obtain hw1 where
    hw1: "ops hw1 = ops ?hw @ batch_wire cs" "reset_gpio hw1 = reset_gpio ?hw"
      "\<forall>rest. send_mipi_cmds_loop env (cs @ rest) ?hw = send_mipi_cmds_loop env rest hw1"
    by blast
  have "\<forall>rest. send_mipi_cmds_loop env ((c # cs) @ rest) hw = send_mipi_cmds_loop env rest hw1"
    using ok hw1(3)
    by (simp add: cmd_valid_step [OF valid(1)] del: send_mipi_cmds_loop.simps)
  with hw1(1,2) show ?case
    by (intro exI [of _ hw1]) simp
qed

text \<open>
  C3. A batch of valid commands \<open>cs\<close> followed by a zero-length entry, on a channel
  that accepts each of its writes: \<^verbatim>\<open>send_mipi_cmds\<close> returns 0, and what it has put on
  the wire is, command by command in the order of the batch, one write of the
  command's address (with no payload when \<^verbatim>\<open>len = 2\<close>, with the \<^verbatim>\<open>len - 2\<close> payload bytes
  otherwise) followed at once by the sleep of the command's first byte in
  milliseconds, and nothing else.
\<close>

theorem send_mipi_cmds_in_order:
  assumes "\<forall>c\<in>set cs. cmd_valid c" and "len z = 0"
    and "writes_accepted env (ops hw) cs"
  shows "\<exists>hw'. send_mipi_cmds env (Some (cs @ z # rest)) hw = Some (0, hw') \<and>
           ops hw' = ops hw @ batch_wire cs \<and>
           (\<forall>c\<in>set cs. (len c = 2 \<longrightarrow> cmd_payload c = []) \<and>
                        length (cmd_payload c) = len c - 2)"
proof -
  from loop_accepted_prefix [OF assms(1,3)] obtain hw1 where
    hw1: "ops hw1 = ops hw @ batch_wire cs"
      "\<forall>rest. send_mipi_cmds_loop env (cs @ rest) hw = send_mipi_cmds_loop env rest hw1"
    by blast
  have "send_mipi_cmds env (Some (cs @ z # rest)) hw = Some (0, hw1)"
    using hw1(2) assms(2) by (simp add: send_mipi_cmds_def)
  moreover have "\<forall>c\<in>set cs. (len c = 2 \<longrightarrow> cmd_payload c = []) \<and>
                        length (cmd_payload c) = len c - 2"
    using assms(1) by (auto simp: cmd_valid_def cmd_payload_def)
  ultimately show ?thesis
    using hw1(1) by blast
qed

theorem send_mipi_cmds_in_order_witness:
  "\<exists>hw'. send_mipi_cmds (\<lambda>tr op. 0) (Some lg_sw49410_rev1_on_cmds_1)
            \<lparr>trace = [], reset_gpio = True\<rparr> = Some (0, hw') \<and>
     ops hw' =
       [DcsWrite 0x26 [0x02], UsleepRange 0 1000,
        DcsWrite 0x35 [0x00], UsleepRange 0 1000,
        DcsWrite 0x53 [0x0C, 0x30], UsleepRange 0 1000,
        DcsWrite 0x55 [0x00, 0x70, 0xDF, 0x00, 0x70, 0xDF], UsleepRange 0 1000,
        DcsWrite 0xF7 [0x01, 0x49, 0x0C], UsleepRange 0 1000]"
  using send_mipi_cmds_in_order
    [of "butlast lg_sw49410_rev1_on_cmds_1" "\<lparr>len = 0, data = []\<rparr>" "\<lambda>tr op. 0"
        "\<lparr>trace = [], reset_gpio = True\<rparr>" "[]"]
  by (simp add: lg_sw49410_rev1_on_cmds_1_def INIT_CMD_def cmd_valid_def writes_accepted_def
      cmd_write_def cmd_delay_def cmd_delay_ms_def cmd_payload_def ops_def)

text \<open>
  C4. When the channel accepts the writes of \<open>cs\<close> and fails the write of the next
  command \<open>c\<close> with a negative code, \<^verbatim>\<open>send_mipi_cmds\<close> returns exactly that code; the
  wire has seen the commands of \<open>cs\<close> (each with its delay, none undone), then the
  failed write, and nothing after it: no delay, and none of the commands \<open>rest\<close> that
  follow \<open>c\<close> in the batch.
\<close>

theorem send_mipi_cmds_stops_at_failure:
  assumes "\<forall>c\<in>set cs. cmd_valid c" and "cmd_valid c"
    and "writes_accepted env (ops hw) cs"
    and "env (ops hw @ batch_wire cs) (cmd_write c) < 0"
  shows "\<exists>hw'. send_mipi_cmds env (Some (cs @ c # rest)) hw =
                 Some (env (ops hw @ batch_wire cs) (cmd_write c), hw') \<and>
           ops hw' = ops hw @ batch_wire cs @ [cmd_write c]"
proof -
  from loop_accepted_prefix [OF assms(1,3)] obtain hw1 where
    hw1: "ops hw1 = ops hw @ batch_wire cs"
      "\<forall>rest. send_mipi_cmds_loop env (cs @ rest) hw = send_mipi_cmds_loop env rest hw1"
    by blast
  let ?e = "env (ops hw @ batch_wire cs) (cmd_write c)"
  have "send_mipi_cmds env (Some (cs @ c # rest)) hw = Some (?e, hw_log (cmd_write c) ?e hw1)"
    using hw1 assms(4)
    by (simp add: send_mipi_cmds_def cmd_valid_step [OF assms(2)] del: send_mipi_cmds_loop.simps)
  moreover have "ops (hw_log (cmd_write c) ?e hw1) = ops hw @ batch_wire cs @ [cmd_write c]"
    using hw1(1) by simp
  ultimately show ?thesis
    by blast
qed

theorem send_mipi_cmds_stops_at_failure_witness:
  "\<exists>hw'. send_mipi_cmds (\<lambda>tr op. if op = DcsWrite 0x53 [0x0C, 0x30] then - 5 else 0)
            (Some lg_sw49410_rev1_on_cmds_1) \<lparr>trace = [], reset_gpio = True\<rparr> = Some (- 5, hw') \<and>
     ops hw' =
       [DcsWrite 0x26 [0x02], UsleepRange 0 1000,
        DcsWrite 0x35 [0x00], UsleepRange 0 1000,
        DcsWrite 0x53 [0x0C, 0x30]]"
  using send_mipi_cmds_stops_at_failure
    [of "take 2 lg_sw49410_rev1_on_cmds_1" "lg_sw49410_rev1_on_cmds_1 ! 2"
        "\<lambda>tr op. if op = DcsWrite 0x53 [0x0C, 0x30] then - 5 else 0"
        "\<lparr>trace = [], reset_gpio = True\<rparr>" "drop 3 lg_sw49410_rev1_on_cmds_1"]
  by (simp add: lg_sw49410_rev1_on_cmds_1_def INIT_CMD_def cmd_valid_def writes_accepted_def
      cmd_write_def cmd_delay_def cmd_delay_ms_def cmd_payload_def ops_def less_Suc_eq_0_disj)

subsection \<open>The lifecycle\<close>

lemmas leaf_defs =
  regulator_set_load_def regulator_bulk_enable_def regulator_bulk_disable_def
  pinctrl_select_state_def panel_set_pinctrl_state_def gpiod_set_value_def usleep_range_def
  msleep_def mipi_dsi_dcs_write_def mipi_dsi_dcs_write_buffer_def mipi_dsi_dcs_set_tear_on_def
  mipi_dsi_dcs_set_page_address_def mipi_dsi_dcs_set_display_brightness_def
  mipi_dsi_dcs_exit_sleep_mode_def mipi_dsi_dcs_set_display_on_def backlight_enable_def
  hw_void_def

lemma failed_codes_hw_log [simp]:
  "failed_codes (hw_log op r hw) = failed_codes hw @ (if r < 0 then [r] else [])"
  by (simp add: failed_codes_def)

lemma failed_codes_reset_update [simp]: "failed_codes (hw\<lparr>reset_gpio := v\<rparr>) = failed_codes hw"
  by (simp add: failed_codes_def)

lemma step_ok_same: "\<not> r < 0 \<Longrightarrow> step_ok hw r hw"
  by (simp add: step_ok_def)

lemma step_ok_log: "step_ok hw r (hw_log op r hw)"
  by (simp add: step_ok_def)

lemma step_ok_trans:
  "step_ok hw r1 hw1 \<Longrightarrow> \<not> r1 < 0 \<Longrightarrow> step_ok hw1 r2 hw2 \<Longrightarrow> step_ok hw r2 hw2"
  by (auto simp: step_ok_def)

lemma step_ok_then_quiet:
  "step_ok hw r hw1 \<Longrightarrow> step_ok hw1 0 hw2 \<Longrightarrow> step_ok hw r hw2"
  by (auto simp: step_ok_def)

lemma step_ok_reset_update [simp]: "step_ok hw r (hw'\<lparr>reset_gpio := v\<rparr>) = step_ok hw r hw'"
  by (simp add: step_ok_def)

lemma step_ok_reset_update_left [simp]: "step_ok (hw\<lparr>reset_gpio := v\<rparr>) r hw' = step_ok hw r hw'"
  by (simp add: step_ok_def)

lemma step_ok_void: "step_ok hw 0 (hw_log op 0 hw)"
  by (simp add: step_ok_def)

lemma regulator_set_loads_step:
  "step_ok hw (fst (regulator_set_loads env i ls hw)) (snd (regulator_set_loads env i ls hw))"
proof (induction ls arbitrary: i hw)
  case Nil
  show ?case by (simp add: step_ok_same)
next
  case (Cons l ls)
  let ?e = "env (ops hw) (RegulatorSetLoad i l)"
  show ?case
  proof (cases "?e = 0")
    case True
    have "step_ok hw 0 (hw_log (RegulatorSetLoad i l) 0 hw)" by (rule step_ok_void)
    from step_ok_trans [OF this _ Cons.IH [of "hw_log (RegulatorSetLoad i l) 0 hw" "Suc i"]]
    show ?thesis using True by (simp add: leaf_defs)
  next
    case False
    then show ?thesis by (simp add: leaf_defs step_ok_log)
  qed
qed

lemma regulator_set_loads_reset [simp]:
  "reset_gpio (snd (regulator_set_loads env i ls hw)) = reset_gpio hw"
  by (induction ls arbitrary: i hw) (simp_all add: leaf_defs)

lemma regulator_set_loads_errno:
  "errno_convention env \<Longrightarrow> fst (regulator_set_loads env i ls hw) \<le> 0"
  by (induction ls arbitrary: i hw) (simp_all add: leaf_defs errno_convention_def)

lemma dsi_dcs_write_seqs_step:
  "step_ok hw (fst (dsi_dcs_write_seqs env ds hw)) (snd (dsi_dcs_write_seqs env ds hw))"
proof (induction ds arbitrary: hw)
  case Nil
  show ?case by (simp add: step_ok_same)
next
  case (Cons d ds)
  let ?e = "env (ops hw) (DcsWriteBuffer d)"
  show ?case
  proof (cases "?e < 0")
    case True
    then show ?thesis by (simp add: leaf_defs step_ok_log)
  next
    case False
    from step_ok_trans [OF step_ok_log False Cons.IH [of "hw_log (DcsWriteBuffer d) ?e hw"]]
    show ?thesis using False by (simp add: leaf_defs)
  qed
qed

lemma dsi_dcs_write_seqs_reset [simp]:
  "reset_gpio (snd (dsi_dcs_write_seqs env ds hw)) = reset_gpio hw"
  by (induction ds arbitrary: hw) (simp_all add: leaf_defs)

lemma dsi_dcs_write_seqs_sign: "fst (dsi_dcs_write_seqs env ds hw) \<le> 0"
  by (induction ds arbitrary: hw) (simp_all add: leaf_defs)

lemma reset_pulse_step: "step_ok hw 0 (reset_pulse hw)"
  by (simp add: reset_pulse_def leaf_defs step_ok_def)

lemma reset_pulse_reset [simp]: "reset_gpio (reset_pulse hw) = True"
  by (simp add: reset_pulse_def leaf_defs)


lemma lg_panel_power_on_step:
  "step_ok hw (fst (lg_panel_power_on env hw)) (snd (lg_panel_power_on env hw))"
  using regulator_set_loads_step [of hw env 0 regulator_enable_loads]
  by (auto simp: lg_panel_power_on_def case_prod_beta leaf_defs reset_pulse_def step_ok_def)

lemma lg_panel_power_on_reset:
  "reset_gpio (snd (lg_panel_power_on env hw)) =
     (if fst (lg_panel_power_on env hw) = 0 then True else reset_gpio hw)"
  by (simp add: lg_panel_power_on_def case_prod_beta leaf_defs)

lemma lg_panel_power_on_errno:
  "errno_convention env \<Longrightarrow> fst (lg_panel_power_on env hw) \<le> 0"
  using regulator_set_loads_errno [of env 0 regulator_enable_loads hw]
  by (simp add: lg_panel_power_on_def case_prod_beta leaf_defs errno_convention_def)


lemma step_ok_trace: "step_ok hw r hw' \<Longrightarrow> trace hw' = trace hw @ new_events hw hw'"
  by (auto simp: step_ok_def new_events_def)

lemma step_ok_failed:
  "step_ok hw r hw' \<Longrightarrow> failed_codes hw' = failed_codes hw @ (if r < 0 then [r] else [])"
  by (simp add: step_ok_def)

lemmas dsi_dcs_write_seqs_trace = step_ok_trace [OF dsi_dcs_write_seqs_step]
lemmas dsi_dcs_write_seqs_failed = step_ok_failed [OF dsi_dcs_write_seqs_step]
lemmas lg_panel_power_on_trace = step_ok_trace [OF lg_panel_power_on_step]
lemmas lg_panel_power_on_failed = step_ok_failed [OF lg_panel_power_on_step]

lemma lg_panel_prepare_dcs_step:
  "step_ok hw (fst (lg_panel_prepare_dcs env pinfo hw)) (snd (snd (lg_panel_prepare_dcs env pinfo hw)))"
  by (simp add: lg_panel_prepare_dcs_def case_prod_beta leaf_defs step_ok_def prepare_poweroff_def
      dsi_dcs_write_seqs_trace dsi_dcs_write_seqs_failed del: dsi_dcs_write_seqs.simps)


lemma lg_panel_prepare_dcs_reset:
  "reset_gpio hw \<Longrightarrow> reset_gpio (snd (snd (lg_panel_prepare_dcs env pinfo hw)))"
  by (simp add: lg_panel_prepare_dcs_def case_prod_beta leaf_defs prepare_poweroff_def
      del: dsi_dcs_write_seqs.simps)

lemma lg_panel_prepare_dcs_state:
  "fst (snd (lg_panel_prepare_dcs env pinfo hw)) =
     (if fst (lg_panel_prepare_dcs env pinfo hw) < 0 then pinfo else pinfo\<lparr>prepared := True\<rparr>)"
  by (simp add: lg_panel_prepare_dcs_def case_prod_beta leaf_defs prepare_poweroff_def
      del: dsi_dcs_write_seqs.simps)

lemma lg_panel_prepare_dcs_sign: "fst (lg_panel_prepare_dcs env pinfo hw) \<le> 0"
  by (simp add: lg_panel_prepare_dcs_def case_prod_beta leaf_defs prepare_poweroff_def
      del: dsi_dcs_write_seqs.simps)

lemmas lg_panel_prepare_dcs_trace = step_ok_trace [OF lg_panel_prepare_dcs_step]
lemmas lg_panel_prepare_dcs_failed = step_ok_failed [OF lg_panel_prepare_dcs_step]

lemma lg_panel_prepare_body_step:
  "step_ok hw (fst (lg_panel_prepare_body env pinfo hw))
     (snd (snd (lg_panel_prepare_body env pinfo hw)))"
  by (simp add: lg_panel_prepare_body_def case_prod_beta leaf_defs step_ok_def
      prepare_poweroff_def lg_panel_power_on_trace lg_panel_power_on_failed
      lg_panel_prepare_dcs_trace lg_panel_prepare_dcs_failed)

lemma lg_panel_prepare_body_sign: "fst (lg_panel_prepare_body env pinfo hw) \<le> 0"
  by (simp add: lg_panel_prepare_body_def case_prod_beta prepare_poweroff_def
      lg_panel_prepare_dcs_sign)

lemma lg_panel_prepare_body_state:
  "fst (snd (lg_panel_prepare_body env pinfo hw)) =
     (if fst (lg_panel_prepare_body env pinfo hw) < 0 \<or> prepared pinfo then pinfo
      else pinfo\<lparr>prepared := True\<rparr>)"
  by (simp add: lg_panel_prepare_body_def case_prod_beta prepare_poweroff_def
      lg_panel_prepare_dcs_state)

lemma lg_panel_prepare_body_reset:
  assumes "errno_convention env" and "fst (lg_panel_prepare_body env pinfo hw) < 0"
  shows "reset_gpio (snd (snd (lg_panel_prepare_body env pinfo hw)))"
proof -
  let ?hw0 = "usleep_range (unat (init_delay_us pinfo)) (unat (init_delay_us pinfo)) hw"
  let ?p = "lg_panel_power_on env ?hw0"
  from assms(2) have unprep: "\<not> prepared pinfo"
    by (auto simp: lg_panel_prepare_body_def)
  show ?thesis
  proof (cases "fst ?p < 0")
    case True
    with unprep show ?thesis
      by (simp add: lg_panel_prepare_body_def case_prod_beta prepare_poweroff_def gpiod_set_value_def)
  next
    case False
    with lg_panel_power_on_errno [OF assms(1), of ?hw0] have "fst ?p = 0" by simp
    then have "reset_gpio (snd ?p)" by (simp add: lg_panel_power_on_reset)
    then have "reset_gpio (snd (snd (lg_panel_prepare_dcs env pinfo (snd ?p))))"
      by (rule lg_panel_prepare_dcs_reset)
    with unprep False show ?thesis
      by (simp add: lg_panel_prepare_body_def case_prod_beta)
  qed
qed

lemma step_ok_failure:
  assumes "step_ok hw r hw'" and "(op, e) \<in> set (new_events hw hw')" and "e < 0"
  shows "r = e"
proof -
  from assms(1) obtain evs where evs: "trace hw' = trace hw @ evs"
    and codes: "failed_codes hw' = failed_codes hw @ (if r < 0 then [r] else [])"
    by (auto simp: step_ok_def)
  from evs have "new_events hw hw' = evs" by (simp add: new_events_def)
  with assms(2,3) have "e \<in> set (filter (\<lambda>e. e < 0) (map snd evs))" by force
  moreover from evs codes have "filter (\<lambda>e. e < 0) (map snd evs) = (if r < 0 then [r] else [])"
    by (simp add: failed_codes_def)
  ultimately show ?thesis by (simp split: if_splits)
qed

lemma new_events_append: "trace hw' = trace hw @ evs \<Longrightarrow> new_events hw hw' = evs"
  by (simp add: new_events_def)

lemma lg_panel_power_on_pulse:
  assumes "fst (lg_panel_power_on env hw) = 0"
  shows "(GpiodSetValue True, 0) \<in> set (new_events hw (snd (lg_panel_power_on env hw)))"
  using assms
  by (simp add: lg_panel_power_on_def regulator_enable_loads_def case_prod_beta leaf_defs
      reset_pulse_def new_events_def split: if_splits)

lemma lg_panel_prepare_body_pulse:
  assumes "errno_convention env" and "fst (lg_panel_prepare_body env pinfo hw) < 0"
  shows "(GpiodSetValue True, 0) \<in>
           set (new_events hw (snd (snd (lg_panel_prepare_body env pinfo hw))))"
proof -
  let ?u = "UsleepRange (unat (init_delay_us pinfo)) (unat (init_delay_us pinfo))"
  let ?hw0 = "hw_log ?u 0 hw"
  let ?p = "lg_panel_power_on env ?hw0"
  let ?hw' = "snd (snd (lg_panel_prepare_body env pinfo hw))"
  from assms(2) have unprep: "\<not> prepared pinfo"
    by (auto simp: lg_panel_prepare_body_def)
  show ?thesis
  proof (cases "fst ?p < 0")
    case True
    with unprep have "trace ?hw' =
        trace hw @ ((?u, 0) # new_events ?hw0 (snd ?p) @ [(GpiodSetValue True, 0)])"
      by (simp add: lg_panel_prepare_body_def case_prod_beta prepare_poweroff_def leaf_defs
          lg_panel_power_on_trace)
    from new_events_append [OF this] show ?thesis by simp
  next
    case False
    with lg_panel_power_on_errno [OF assms(1), of ?hw0] have zero: "fst ?p = 0" by simp
    from unprep False have "trace ?hw' =
        trace hw @ ((?u, 0) # new_events ?hw0 (snd ?p) @
          new_events (snd ?p) (snd (snd (lg_panel_prepare_dcs env pinfo (snd ?p)))))"
      by (simp add: lg_panel_prepare_body_def case_prod_beta leaf_defs
          lg_panel_power_on_trace lg_panel_prepare_dcs_trace)
    from new_events_append [OF this] lg_panel_power_on_pulse [OF zero] show ?thesis by simp
  qed
qed

lemmas eval_defs =
  lg_panel_prepare_def lg_panel_prepare_body_def lg_panel_prepare_dcs_def lg_panel_power_on_def
  prepare_poweroff_def reset_pulse_def regulator_enable_loads_def regulator_disable_loads_def
  panel_reset_at_beginning_def lg_panel_power_off_def lg_panel_enable_def lg_panel_unprepare_def
  lg_panel_disable_def panel_probe_def panel_add_def panel_pinctrl_init_def
  lg_panel_backlight_init_def panel_info_kzalloc_def lifecycle_def hw_boot_def
  env_ok_def env_fail_on_def new_events_def ops_def hw_log_def

lemmas probe_defs =
  lifecycle_def panel_probe_def panel_add_def panel_pinctrl_init_def lg_panel_backlight_init_def
  panel_info_kzalloc_def env_ok_def hw_boot_def hw_void_def Let_def

text \<open>
  C2. A panel whose one-time block is spent (\<^verbatim>\<open>first_enable\<close> false, as in every state
  the driver reaches, see \<open>lifecycle_first_enable\<close>), on hardware that keeps the
  kernel's errno convention. Whenever a leaf call made during \<^verbatim>\<open>lg_panel_prepare\<close>
  fails, that is returns a negative code \<open>e\<close> (a regulator or pin-control call of the
  power-on, one of the DCS setup calls, a write of the init table, the sleep exit,
  the compression-mode write, the display-on), \<^verbatim>\<open>lg_panel_prepare\<close> returns \<open>e\<close>,
  \<^verbatim>\<open>prepared\<close> is false on return, the call has driven the reset line high, and the
  line is high on return. For a failure of the power-on or of the compression-mode
  write the line is driven at the label \<^verbatim>\<open>poweroff\<close>; the other failures return at
  once, after the pulse of the successful power-on has left the line high.
\<close>

theorem lg_panel_prepare_failure:
  assumes "\<not> first_enable pinfo" and "errno_convention env"
    and "lg_panel_prepare env pinfo hw = (r, pinfo', hw')"
    and "(op, e) \<in> set (new_events hw hw')" and "e < 0"
  shows "r = e \<and> \<not> prepared pinfo' \<and> reset_gpio hw' \<and>
         (GpiodSetValue True, 0) \<in> set (new_events hw hw')"
proof -
  from assms(1,3) have body: "lg_panel_prepare_body env pinfo hw = (r, pinfo', hw')"
    by (simp add: lg_panel_prepare_def)
  from lg_panel_prepare_body_step [of hw env pinfo] body have "step_ok hw r hw'" by simp
  from step_ok_failure [OF this assms(4,5)] have r: "r = e" .
  with assms(5) body have neg: "fst (lg_panel_prepare_body env pinfo hw) < 0" by simp
  from lg_panel_prepare_body_reset [OF assms(2) neg] body have "reset_gpio hw'" by simp
  moreover from lg_panel_prepare_body_pulse [OF assms(2) neg] body
  have "(GpiodSetValue True, 0) \<in> set (new_events hw hw')" by simp
  moreover from neg have "\<not> prepared pinfo" by (auto simp: lg_panel_prepare_body_def)
  with lg_panel_prepare_body_state [of env pinfo hw] neg body have "\<not> prepared pinfo'" by simp
  ultimately show ?thesis using r by simp
qed

theorem lg_panel_prepare_failure_witness:
  "fst (lg_panel_prepare (env_fail_on (DcsSetPageAddress 0 0x0c2f) (- 5)) panel_info_kzalloc hw_boot) = - 5 \<and>
   \<not> prepared (fst (snd (lg_panel_prepare (env_fail_on (DcsSetPageAddress 0 0x0c2f) (- 5)) panel_info_kzalloc hw_boot))) \<and>
   reset_gpio (snd (snd (lg_panel_prepare (env_fail_on (DcsSetPageAddress 0 0x0c2f) (- 5)) panel_info_kzalloc hw_boot)))"
  using lg_panel_prepare_failure
    [of panel_info_kzalloc "env_fail_on (DcsSetPageAddress 0 0x0c2f) (- 5)" hw_boot
        "- 5" "panel_info_kzalloc" _ "DcsSetPageAddress 0 0x0c2f" "- 5"]
  by (simp add: eval_defs leaf_defs errno_convention_def Let_def)

lemma panel_add_flags:
  "first_enable (fst (snd (panel_add env pinfo hw))) = first_enable pinfo \<and>
   prepared (fst (snd (panel_add env pinfo hw))) = prepared pinfo \<and>
   enabled (fst (snd (panel_add env pinfo hw))) = enabled pinfo"
  by (simp add: panel_add_def lg_panel_backlight_init_def case_prod_beta Let_def)

lemma panel_probe_flags:
  assumes "panel_probe env hw = (err, Some pinfo, hw1)"
  shows "\<not> first_enable pinfo \<and> \<not> prepared pinfo \<and> \<not> enabled pinfo"
proof -
  let ?a = "panel_add env panel_info_kzalloc (hw_log DevmKzalloc (env (ops hw) DevmKzalloc) hw)"
  from assms have "pinfo = fst (snd ?a) \<or> (\<exists>d. pinfo = (fst (snd ?a))\<lparr>dsc := d\<rparr>)"
    by (auto simp: panel_probe_def case_prod_beta split: if_splits)
  then show ?thesis
    using panel_add_flags [of env panel_info_kzalloc "hw_log DevmKzalloc (env (ops hw) DevmKzalloc) hw"]
    by (auto simp: panel_info_kzalloc_def)
qed

lemma lg_panel_prepare_unarmed:
  "\<not> first_enable pinfo \<Longrightarrow> lg_panel_prepare env pinfo hw = lg_panel_prepare_body env pinfo hw"
  by (simp add: lg_panel_prepare_def)

lemma panel_funcs_first_enable:
  "\<not> first_enable pinfo \<Longrightarrow> \<not> first_enable (fst (snd (panel_funcs env c pinfo hw)))"
  by (cases c)
    (simp_all add: lg_panel_prepare_unarmed lg_panel_prepare_body_state lg_panel_unprepare_def
      lg_panel_disable_def lg_panel_enable_def case_prod_beta leaf_defs)

lemma run_first_enable:
  "\<not> first_enable (fst st) \<Longrightarrow> \<not> first_enable (fst (run env calls st))"
  by (induction calls arbitrary: st) (simp_all add: panel_funcs_first_enable)

lemma lifecycle_first_enable:
  assumes "lifecycle env calls hw0 = Some (pinfo, hw)"
  shows "\<not> first_enable pinfo"
proof -
  obtain err p hw1 where probe: "panel_probe env hw0 = (err, p, hw1)"
    by (cases "panel_probe env hw0") auto
  with assms obtain p0 where p0: "p = Some p0" and r: "run env calls (p0, hw1) = (pinfo, hw)"
    by (cases p) (auto simp: lifecycle_def split: if_splits)
  from panel_probe_flags [OF probe [unfolded p0]] have "\<not> first_enable (fst (p0, hw1))" by simp
  from run_first_enable [OF this, of env calls] r show ?thesis by simp
qed

text \<open>
  C1, which the code breaks. The specification has \<^verbatim>\<open>first_enable\<close> start true, so that the first
  \<^verbatim>\<open>lg_panel_prepare\<close> runs \<^verbatim>\<open>panel_reset_at_beginning\<close>. In the driver the flag comes out
  of \<^verbatim>\<open>devm_kzalloc\<close> false and nothing ever sets it: in every state of every life of
  the panel \<^verbatim>\<open>first_enable\<close> is false, and \<^verbatim>\<open>lg_panel_prepare\<close> is the function from the
  test of \<^verbatim>\<open>prepared\<close> on, without the one-time block. \<^verbatim>\<open>panel_reset_at_beginning\<close>
  never runs.
\<close>

theorem panel_reset_at_beginning_never_runs:
  assumes "lifecycle env calls hw0 = Some (pinfo, hw)"
  shows "\<not> first_enable pinfo \<and>
         lg_panel_prepare env pinfo hw = lg_panel_prepare_body env pinfo hw"
  using lifecycle_first_enable [OF assms] by (simp add: lg_panel_prepare_unarmed)

theorem panel_reset_at_beginning_never_runs_witness:
  "map_option (first_enable \<circ> fst) (lifecycle env_ok [] hw_boot) = Some False \<and>
   map_option (\<lambda>st. lg_panel_prepare env_ok (fst st) (snd st)) (lifecycle env_ok [] hw_boot) =
   map_option (\<lambda>st. lg_panel_prepare_body env_ok (fst st) (snd st)) (lifecycle env_ok [] hw_boot) \<and>
   map_option (\<lambda>st. take 5 (map fst (new_events (snd st) (snd (snd (lg_panel_prepare env_ok (fst st) (snd st)))))))
     (lifecycle env_ok [] hw_boot) =
   Some [UsleepRange 5000 5000, RegulatorSetLoad 0 1700000, RegulatorBulkEnable,
         PinctrlSelectState True, GpiodSetValue True]"
proof -
  let ?L = "lifecycle env_ok [] hw_boot"
  have l: "?L = Some (fst (the ?L), snd (the ?L))"
    by (simp add: probe_defs)
  have ev: "map_option (\<lambda>st. take 5 (map fst (new_events (snd st) (snd (snd (lg_panel_prepare env_ok (fst st) (snd st)))))))
     ?L = Some [UsleepRange 5000 5000, RegulatorSetLoad 0 1700000, RegulatorBulkEnable,
         PinctrlSelectState True, GpiodSetValue True]"
    by (simp add: eval_defs leaf_defs Let_def lg_panel_prepare_seqs_def)
  from panel_reset_at_beginning_never_runs [OF l] ev show ?thesis
    by (simp add: option.map_sel probe_defs)
qed

lemma lg_panel_prepare_body_new_events:
  assumes "\<not> prepared pinfo"
  shows "new_events hw (snd (snd (lg_panel_prepare_body env pinfo hw))) \<noteq> []"
proof -
  have "\<exists>evs. trace (snd (snd (lg_panel_prepare_body env pinfo hw))) = trace hw @ e # evs"
    if "e = (UsleepRange (unat (init_delay_us pinfo)) (unat (init_delay_us pinfo)), 0)" for e
    using assms that
    by (simp add: lg_panel_prepare_body_def case_prod_beta prepare_poweroff_def leaf_defs
        lg_panel_power_on_trace lg_panel_prepare_dcs_trace)
  then show ?thesis
    by (auto simp: new_events_def)
qed

text \<open>
  C5. In every state the panel reaches after a successful probe: if \<^verbatim>\<open>prepared\<close> is set,
  \<^verbatim>\<open>lg_panel_prepare\<close> returns 0 and leaves the panel state and the hardware, trace
  included, as they were; a call that returns 0 is followed by such a call; and a
  call on a panel that is not prepared does touch the hardware.
\<close>

theorem lg_panel_prepare_idempotent:
  assumes "lifecycle env calls hw0 = Some (pinfo, hw)"
  shows "(prepared pinfo \<longrightarrow> lg_panel_prepare env pinfo hw = (0, pinfo, hw)) \<and>
         (\<forall>pinfo1 hw1. lg_panel_prepare env pinfo hw = (0, pinfo1, hw1) \<longrightarrow>
            lg_panel_prepare env pinfo1 hw1 = (0, pinfo1, hw1)) \<and>
         (\<not> prepared pinfo \<longrightarrow>
            new_events hw (snd (snd (lg_panel_prepare env pinfo hw))) \<noteq> [])"
proof -
  have unarmed: "\<not> first_enable pinfo" by (rule lifecycle_first_enable [OF assms])
  have noop: "lg_panel_prepare env p h = (0, p, h)" if "prepared p" "\<not> first_enable p" for p h
    using that by (simp add: lg_panel_prepare_def lg_panel_prepare_body_def)
  have "lg_panel_prepare env pinfo1 hw1 = (0, pinfo1, hw1)"
    if first: "lg_panel_prepare env pinfo hw = (0, pinfo1, hw1)" for pinfo1 hw1
  proof -
    from first unarmed have body: "lg_panel_prepare_body env pinfo hw = (0, pinfo1, hw1)"
      by (simp add: lg_panel_prepare_unarmed)
    with lg_panel_prepare_body_state [of env pinfo hw] unarmed
    have "prepared pinfo1 \<and> \<not> first_enable pinfo1" by (auto split: if_splits)
    then show ?thesis by (simp add: noop)
  qed
  moreover have "prepared pinfo \<longrightarrow> lg_panel_prepare env pinfo hw = (0, pinfo, hw)"
    using unarmed by (simp add: noop)
  moreover have "\<not> prepared pinfo \<longrightarrow>
      new_events hw (snd (snd (lg_panel_prepare env pinfo hw))) \<noteq> []"
    using unarmed by (simp add: lg_panel_prepare_unarmed lg_panel_prepare_body_new_events)
  ultimately show ?thesis
    by blast
qed

theorem lg_panel_prepare_idempotent_witness:
  "map_option (prepared \<circ> fst) (lifecycle env_ok [Prepare] hw_boot) = Some True \<and>
   map_option (\<lambda>st. lg_panel_prepare env_ok (fst st) (snd st)) (lifecycle env_ok [Prepare] hw_boot) =
   map_option (\<lambda>st. (0, fst st, snd st)) (lifecycle env_ok [Prepare] hw_boot) \<and>
   map_option (prepared \<circ> fst) (lifecycle env_ok [] hw_boot) = Some False \<and>
   map_option (\<lambda>st. new_events (snd st) (snd (snd (lg_panel_prepare env_ok (fst st) (snd st)))) = [])
     (lifecycle env_ok [] hw_boot) = Some False"
proof -
  let ?L = "lifecycle env_ok [Prepare] hw_boot"
  let ?M = "lifecycle env_ok [] hw_boot"
  have l: "?L = Some (fst (the ?L), snd (the ?L))"
    by (simp add: probe_defs)
  have p: "prepared (fst (the ?L))"
    by (simp add: eval_defs leaf_defs Let_def lg_panel_prepare_seqs_def)
  have l0: "?M = Some (fst (the ?M), snd (the ?M))"
    by (simp add: probe_defs)
  have p0: "\<not> prepared (fst (the ?M))"
    by (simp add: probe_defs)
  have a: "lg_panel_prepare env_ok (fst (the ?L)) (snd (the ?L)) = (0, fst (the ?L), snd (the ?L))"
    using lg_panel_prepare_idempotent [OF l] p by blast
  have b: "new_events (snd (the ?M))
             (snd (snd (lg_panel_prepare env_ok (fst (the ?M)) (snd (the ?M))))) \<noteq> []"
    using lg_panel_prepare_idempotent [OF l0] p0 by blast
  have c: "map_option f x = Some (f (the x))" if "x = Some (the x)" for f :: "'a \<Rightarrow> 'b" and x
    using that by (cases x) simp_all
  from l have l': "?L = Some (the ?L)" by simp
  from l0 have l0': "?M = Some (the ?M)" by simp
  show ?thesis
    using a b p p0 by (simp add: c [OF l'] c [OF l0'])
qed


lemma lg_panel_prepare_succeeds:
  assumes "\<forall>tr op. env tr op = 0" and "\<not> prepared pinfo" and "\<not> first_enable pinfo"
  shows "fst (lg_panel_prepare env pinfo hw) = 0 \<and>
         fst (snd (lg_panel_prepare env pinfo hw)) = pinfo\<lparr>prepared := True\<rparr>"
proof -
  have loads: "fst (regulator_set_loads env i ls h) = 0" for i ls h
    by (induction ls arbitrary: i h) (simp_all add: leaf_defs assms(1))
  have seqs: "fst (dsi_dcs_write_seqs env ds h) = 0" for ds h
    by (induction ds arbitrary: h) (simp_all add: leaf_defs assms(1))
  have on: "fst (lg_panel_power_on env h) = 0" for h
    by (simp add: lg_panel_power_on_def case_prod_beta leaf_defs loads assms(1))
  have dcs: "fst (lg_panel_prepare_dcs env pinfo h) = 0" for h
    by (simp add: lg_panel_prepare_dcs_def case_prod_beta leaf_defs seqs assms(1)
        del: dsi_dcs_write_seqs.simps)
  have "fst (lg_panel_prepare_body env pinfo hw) = 0"
    using assms(2) by (simp add: lg_panel_prepare_body_def case_prod_beta on dcs)
  then show ?thesis
    using assms(2,3) lg_panel_prepare_body_state [of env pinfo hw]
    by (simp add: lg_panel_prepare_unarmed)
qed

lemma lg_panel_prepare_keeps_flags:
  "enabled (fst (snd (lg_panel_prepare env pinfo hw))) = enabled pinfo \<and>
   (prepared pinfo \<longrightarrow> prepared (fst (snd (lg_panel_prepare env pinfo hw))))"
  by (simp add: lg_panel_prepare_def case_prod_beta lg_panel_prepare_body_state)

lemma panel_funcs_invariant:
  assumes "enabled pinfo \<longrightarrow> prepared pinfo" and "c = Enable \<longrightarrow> prepared pinfo"
  shows "enabled (fst (snd (panel_funcs env c pinfo hw))) \<longrightarrow>
         prepared (fst (snd (panel_funcs env c pinfo hw)))"
  using assms lg_panel_prepare_keeps_flags [of env pinfo hw]
  by (cases c)
    (auto simp: lg_panel_unprepare_def lg_panel_disable_def lg_panel_enable_def
      case_prod_beta leaf_defs)

lemma run_invariant:
  assumes "enabled (fst st) \<longrightarrow> prepared (fst st)" and "enable_when_prepared env calls st"
  shows "enabled (fst (run env calls st)) \<longrightarrow> prepared (fst (run env calls st))"
  using assms
proof (induction calls arbitrary: st)
  case Nil
  then show ?case by simp
next
  case (Cons c cs)
  from Cons.prems have guard: "c = Enable \<longrightarrow> prepared (fst st)"
    and rest: "enable_when_prepared env cs (snd (panel_funcs env c (fst st) (snd st)))"
    by (simp_all split: if_splits)
  from panel_funcs_invariant [OF Cons.prems(1) guard]
  have "enabled (fst (snd (panel_funcs env c (fst st) (snd st)))) \<longrightarrow>
        prepared (fst (snd (panel_funcs env c (fst st) (snd st))))" .
  from Cons.IH [OF this rest] show ?case by simp
qed

text \<open>
  C6, amended. \<^verbatim>\<open>lg_panel_enable\<close> does not look at \<^verbatim>\<open>prepared\<close>, so the invariant needs
  the host to keep the order of the DRM framework. After a successful probe, along
  any sequence of \<^verbatim>\<open>prepare\<close>, \<^verbatim>\<open>unprepare\<close>, \<^verbatim>\<open>enable\<close> and \<^verbatim>\<open>disable\<close> calls in which
  \<^verbatim>\<open>enable\<close> is only called on a panel whose \<^verbatim>\<open>prepared\<close> flag is set, \<^verbatim>\<open>enabled\<close> implies
  \<^verbatim>\<open>prepared\<close> in the state reached (and, a prefix of such a sequence being one, in
  every state on the way).
\<close>

theorem enabled_implies_prepared_when_ordered:
  assumes "panel_probe env hw0 = (0, Some pinfo0, hw1)"
    and "enable_when_prepared env calls (pinfo0, hw1)"
  shows "enabled (fst (run env calls (pinfo0, hw1))) \<longrightarrow>
         prepared (fst (run env calls (pinfo0, hw1)))"
proof -
  from panel_probe_flags [OF assms(1)] have "enabled (fst (pinfo0, hw1)) \<longrightarrow> prepared (fst (pinfo0, hw1))"
    by simp
  from run_invariant [OF this assms(2)] show ?thesis .
qed

theorem enabled_implies_prepared_when_ordered_witness:
  "enabled (fst (run env_ok [Prepare, Enable]
     (the (fst (snd (panel_probe env_ok hw_boot))), snd (snd (panel_probe env_ok hw_boot))))) \<and>
   prepared (fst (run env_ok [Prepare, Enable]
     (the (fst (snd (panel_probe env_ok hw_boot))), snd (snd (panel_probe env_ok hw_boot)))))"
proof -
  let ?P = "the (fst (snd (panel_probe env_ok hw_boot)))"
  let ?H = "snd (snd (panel_probe env_ok hw_boot))"
  have probe: "panel_probe env_ok hw_boot = (0, Some ?P, ?H)"
    by (simp add: probe_defs)
  have guard: "enable_when_prepared env_ok [Prepare, Enable] (?P, ?H)"
    by (simp add: eval_defs leaf_defs Let_def lg_panel_prepare_seqs_def)
  have en: "enabled (fst (run env_ok [Prepare, Enable] (?P, ?H)))"
    by (simp add: eval_defs leaf_defs Let_def lg_panel_prepare_seqs_def)
  from enabled_implies_prepared_when_ordered [OF probe guard] en show ?thesis
    by blast
qed

text \<open>
  C6 without the order fails: \<^verbatim>\<open>enable\<close> as the first call after the probe, on hardware where
  everything succeeds, sets \<^verbatim>\<open>enabled\<close> on a panel that is not prepared.
\<close>

theorem enable_before_prepare_counterexample:
  "map_option (enabled \<circ> fst) (lifecycle env_ok [Enable] hw_boot) = Some True \<and>
   map_option (prepared \<circ> fst) (lifecycle env_ok [Enable] hw_boot) = Some False"
  by (simp add: eval_defs leaf_defs Let_def)

text \<open>
  C7, amended. \<^verbatim>\<open>lg_panel_power_off\<close> always drives the reset line low and selects the
  suspend pin state. It returns at the first call that fails: when the pin state
  selection returns non-zero, no load is set and the rails are not disabled; when the
  load setting returns non-zero, the rails are not disabled. Only when both succeed
  does it call \<^verbatim>\<open>regulator_bulk_disable\<close>, whose result it returns.
\<close>

theorem lg_panel_power_off_stops_at_first_failure:
  "(let pin = env (ops hw @ [GpiodSetValue False]) (PinctrlSelectState False);
        ld = env (ops hw @ [GpiodSetValue False, PinctrlSelectState False]) (RegulatorSetLoad 0 100);
        dis = env (ops hw @ [GpiodSetValue False, PinctrlSelectState False, RegulatorSetLoad 0 100])
                RegulatorBulkDisable
    in fst (lg_panel_power_off env hw) =
         (if pin \<noteq> 0 then pin else if ld \<noteq> 0 then ld else dis) \<and>
       ops (snd (lg_panel_power_off env hw)) =
         ops hw @ [GpiodSetValue False, PinctrlSelectState False] @
           (if pin \<noteq> 0 then []
            else RegulatorSetLoad 0 100 # (if ld \<noteq> 0 then [] else [RegulatorBulkDisable])) \<and>
       reset_gpio (snd (lg_panel_power_off env hw)) = False)"
  by (simp add: lg_panel_power_off_def regulator_disable_loads_def leaf_defs Let_def)

theorem lg_panel_power_off_stops_at_first_failure_witness:
  "fst (lg_panel_power_off (env_fail_on (RegulatorSetLoad 0 100) (- 16)) hw_boot) = - 16 \<and>
   ops (snd (lg_panel_power_off (env_fail_on (RegulatorSetLoad 0 100) (- 16)) hw_boot)) =
     [GpiodSetValue False, PinctrlSelectState False, RegulatorSetLoad 0 100]"
  using lg_panel_power_off_stops_at_first_failure
    [of "env_fail_on (RegulatorSetLoad 0 100) (- 16)" hw_boot]
  by (simp add: env_fail_on_def env_ok_def hw_boot_def ops_def Let_def)

text \<open>
  C7 as best-effort teardown fails: when selecting the suspend pin state fails, the function returns
  that error with no load set and no rail disabled.
\<close>

theorem lg_panel_power_off_counterexample:
  "fst (lg_panel_power_off (env_fail_on (PinctrlSelectState False) (- 22)) hw_boot) = - 22 \<and>
   ops (snd (lg_panel_power_off (env_fail_on (PinctrlSelectState False) (- 22)) hw_boot)) =
     [GpiodSetValue False, PinctrlSelectState False] \<and>
   RegulatorBulkDisable \<notin>
     set (ops (snd (lg_panel_power_off (env_fail_on (PinctrlSelectState False) (- 22)) hw_boot)))"
  by (simp add: lg_panel_power_off_def regulator_disable_loads_def leaf_defs
      env_fail_on_def env_ok_def hw_boot_def ops_def hw_log_def)

text \<open>
  C8. \<^verbatim>\<open>lg_panel_unprepare\<close> and \<^verbatim>\<open>lg_panel_disable\<close> return 0 in every state, on any
  hardware, and leave every field of the panel state and the hardware trace as they
  were.
\<close>

theorem unprepare_and_disable_do_nothing:
  "lg_panel_unprepare env pinfo hw = (0, pinfo, hw) \<and>
   lg_panel_disable env pinfo hw = (0, pinfo, hw)"
  by (simp add: lg_panel_unprepare_def lg_panel_disable_def)

text \<open>
  C9. \<^verbatim>\<open>lg_panel_backlight_update_status\<close> makes exactly one hardware call, the DCS
  set-display-brightness write. The value it hands to the write is 0 when the power
  state is not \<^verbatim>\<open>FB_BLANK_UNBLANK\<close>, or \<^verbatim>\<open>fb_blank\<close> is not \<^verbatim>\<open>FB_BLANK_UNBLANK\<close>, or the
  \<^verbatim>\<open>BL_CORE_FBBLANK\<close> bit of the state is set, whatever the brightness requested;
  otherwise it is the requested brightness as the C conversions leave it (\<^verbatim>\<open>int\<close> to
  \<^verbatim>\<open>u32\<close> to \<^verbatim>\<open>u16\<close>), which for a brightness from 0 to 65535 is the same number. The
  backlight class keeps a request within 0 and \<^verbatim>\<open>max_brightness\<close>, which is 255.
\<close>

theorem backlight_update_status_transmits:
  "new_events hw (snd (snd (lg_panel_backlight_update_status env props pinfo hw))) =
     [(DcsSetDisplayBrightness
         (if props_power props \<noteq> FB_BLANK_UNBLANK \<or>
             props_fb_blank props \<noteq> FB_BLANK_UNBLANK \<or>
             props_state props AND BL_CORE_FBBLANK \<noteq> 0
          then 0 else ucast (word_of_int (props_brightness props) :: u32)),
       fst (lg_panel_backlight_update_status env props pinfo hw))] \<and>
   (0 \<le> props_brightness props \<and> props_brightness props < 2 ^ 16 \<longrightarrow>
      uint (ucast (word_of_int (props_brightness props) :: u32) :: u16) = props_brightness props)"
  by (simp add: lg_panel_backlight_update_status_def leaf_defs new_events_def Let_def
      unsigned_ucast_eq uint_word_of_int take_bit_int_eq_self)

theorem backlight_update_status_transmits_witness:
  "map fst (new_events hw_boot (snd (snd (lg_panel_backlight_update_status env_ok
      (props_unblanked 100) panel_info_kzalloc hw_boot)))) = [DcsSetDisplayBrightness 100] \<and>
   map fst (new_events hw_boot (snd (snd (lg_panel_backlight_update_status env_ok
      ((props_unblanked 100)\<lparr>props_state := 2\<rparr>) panel_info_kzalloc hw_boot)))) =
     [DcsSetDisplayBrightness 0] \<and>
   uint (ucast (word_of_int 100 :: u32) :: u16) = 100"
  using backlight_update_status_transmits [of hw_boot env_ok "props_unblanked 100" panel_info_kzalloc]
    backlight_update_status_transmits
      [of hw_boot env_ok "(props_unblanked 100)\<lparr>props_state := 2\<rparr>" panel_info_kzalloc]
  by (simp add: props_unblanked_def FB_BLANK_UNBLANK_def BL_CORE_FBBLANK_def)

text \<open>
  C10. Whatever the DCS write returns, and so also when it fails, the panel state
  returned by \<^verbatim>\<open>lg_panel_backlight_update_status\<close> is the old one with \<^verbatim>\<open>brightness\<close> set
  to the new effective value; the value returned is the result of the one write, made
  with the value stored. Nothing restores the old brightness after a failed write.
\<close>

theorem backlight_update_status_stores_before_write:
  assumes "lg_panel_backlight_update_status env props pinfo hw = (r, pinfo', hw')"
  shows "pinfo' = pinfo\<lparr>brightness :=
            (if props_power props \<noteq> FB_BLANK_UNBLANK \<or>
                props_fb_blank props \<noteq> FB_BLANK_UNBLANK \<or>
                props_state props AND BL_CORE_FBBLANK \<noteq> 0
             then 0 else word_of_int (props_brightness props))\<rparr> \<and>
         r = env (ops hw) (DcsSetDisplayBrightness (ucast (brightness pinfo'))) \<and>
         new_events hw hw' = [(DcsSetDisplayBrightness (ucast (brightness pinfo')), r)]"
  using assms
  by (auto simp: lg_panel_backlight_update_status_def leaf_defs new_events_def Let_def)

theorem backlight_update_status_stores_before_write_witness:
  "fst (lg_panel_backlight_update_status (env_fail_on (DcsSetDisplayBrightness 100) (- 5))
      (props_unblanked 100) (panel_info_kzalloc\<lparr>brightness := 255\<rparr>) hw_boot) = - 5 \<and>
   brightness (fst (snd (lg_panel_backlight_update_status
      (env_fail_on (DcsSetDisplayBrightness 100) (- 5))
      (props_unblanked 100) (panel_info_kzalloc\<lparr>brightness := 255\<rparr>) hw_boot))) = 100"
  using backlight_update_status_stores_before_write
    [of "env_fail_on (DcsSetDisplayBrightness 100) (- 5)" "props_unblanked 100"
        "panel_info_kzalloc\<lparr>brightness := 255\<rparr>" hw_boot
        "fst (lg_panel_backlight_update_status (env_fail_on (DcsSetDisplayBrightness 100) (- 5))
           (props_unblanked 100) (panel_info_kzalloc\<lparr>brightness := 255\<rparr>) hw_boot)"
        "fst (snd (lg_panel_backlight_update_status (env_fail_on (DcsSetDisplayBrightness 100) (- 5))
           (props_unblanked 100) (panel_info_kzalloc\<lparr>brightness := 255\<rparr>) hw_boot))"
        "snd (snd (lg_panel_backlight_update_status (env_fail_on (DcsSetDisplayBrightness 100) (- 5))
           (props_unblanked 100) (panel_info_kzalloc\<lparr>brightness := 255\<rparr>) hw_boot))"]
  by (simp add: props_unblanked_def FB_BLANK_UNBLANK_def BL_CORE_FBBLANK_def env_fail_on_def
      env_ok_def hw_boot_def ops_def panel_info_kzalloc_def)

end
